theory Spec2Isabelle
  imports Complex_Main "HOL-Library.Sublist"
begin

section \<open>Values shared by the three modules\<close>

text \<open>
  The simulation is written in Python: \<open>animal.py\<close> (class \<open>Animal\<close>), \<open>mammal.py\<close>
  (class \<open>Mammal(Animal)\<close>) and \<open>canine.py\<close> (class \<open>Canine(Mammal)\<close>). Objects are
  mutated in place; here every method takes the object and returns the object it leaves
  behind, together with what the call returned or raised. Modelled are the
  constructors, every method of the three classes that writes \<open>activity_log\<close>, and
  \<open>track_scent\<close> and \<open>learn_command\<close>, which keep logs of their own.

  Numbers. \<open>age\<close> and the \<open>int\<close> arguments are Python integers (\<open>int\<close>). The levels
  \<open>energy_level\<close> and \<open>happiness_level\<close> start as the integers 100 and 80 and become
  floats as soon as a float is added to them; they and every float of the source are
  modelled as \<open>real\<close>: each arithmetic operation on floats is taken exactly, without
  rounding and without overflow to infinity. Where an \<open>int\<close> argument or attribute
  meets a float, Python converts it first and raises \<open>OverflowError\<close> when no float
  can hold it; these are branches of the methods below. \<open>sleep\<close> adds an \<open>int\<close> to
  \<open>energy_level\<close>, which the source converts only when the level is a float at that
  moment: there the sum is taken exactly. So are the products with the values of
  \<open>get_life_expectancy\<close>, which are at most 25 in both classes.

  Time. A \<open>datetime\<close> is the number of microseconds since \<open>datetime.min\<close>
  (0001-01-01 00:00:00); all clock reads of one call see the same instant, which the
  call receives as its first argument \<open>now\<close>.

  Text. A \<open>str\<close> is the list of its Unicode code points. The literals of the source that
  a method compares with, looks up or stores in an attribute are constants given by
  their code points. The texts that are only written out are named: a record type or a
  message by a constructor (with an English gloss), an f-string by a constructor for
  its template, applied to the values interpolated into it. Writing a value into an
  f-string never fails here. CPython from version 3.11 on refuses to write an \<open>int\<close>
  of more than 4300 decimal digits and raises \<open>ValueError\<close>, unless the interpreter
  is told to lift that limit; \<open>digits_within_limit\<close> holds of the integers that any
  interpreter writes.
\<close>

type_synonym str = "nat list"

definition ascii :: "string \<Rightarrow> str" where
  "ascii cs = map of_char cs"

type_synonym datetime = int

definition datetime_max :: datetime where
  "datetime_max = 3652059 * 86400000000 - 1"

definition timedelta_max_days :: int where
  "timedelta_max_days = 999999999"

definition microseconds_per_day :: int where
  "microseconds_per_day = 86400000000"

text \<open>\<open>str(n)\<close> for a natural number: its decimal digits.\<close>

fun decimal :: "nat \<Rightarrow> str" where
  "decimal n = (if n < 10 then [48 + n] else decimal (n div 10) @ [48 + n mod 10])"

text \<open>The \<open>record_type\<close> strings passed to \<open>AnimalRecord\<close>.\<close>

datatype record_type =
    Rt_created            \<comment> \<open>"created", logged by \<open>Animal.__init__\<close>\<close>
  | Rt_feeding            \<comment> \<open>"feeding"\<close>
  | Rt_exercise           \<comment> \<open>"exercise"\<close>
  | Rt_rest               \<comment> \<open>"rest"\<close>
  | Rt_growth             \<comment> \<open>"growth"\<close>
  | Rt_checkup            \<comment> \<open>\<open>'checkup'\<close>\<close>
  | Rt_mammal_created     \<comment> \<open>"mammal created"\<close>
  | Rt_thermoregulation   \<comment> \<open>"body temperature regulation"\<close>
  | Rt_grooming           \<comment> \<open>"grooming"\<close>
  | Rt_shedding           \<comment> \<open>"shedding"\<close>
  | Rt_nursing            \<comment> \<open>"nursing"\<close>
  | Rt_territory          \<comment> \<open>"territory"\<close>
  | Rt_hunting            \<comment> \<open>"hunting"\<close>
  | Rt_migration          \<comment> \<open>"migration"\<close>
  | Rt_hibernation        \<comment> \<open>"hibernation preparation"\<close>
  | Rt_canine_created     \<comment> \<open>"canine created"\<close>
  | Rt_digging            \<comment> \<open>"digging a hole"\<close>
  | Rt_burying            \<comment> \<open>"burying"\<close>
  | Rt_retrieving         \<comment> \<open>"digging up"\<close>
  | Rt_play               \<comment> \<open>"game"\<close>
  | Rt_obeying            \<comment> \<open>"command execution"\<close>
  | Rt_pack_hunting       \<comment> \<open>"pack hunting"\<close>
  | Rt_tracking_success   \<comment> \<open>\<open>'tracking_success'\<close>\<close>
  | Rt_tracking_failed    \<comment> \<open>\<open>'tracking_failed'\<close>\<close>
  | Rt_command_learned    \<comment> \<open>\<open>'command_learned'\<close>\<close>
  | Rt_training_attempt   \<comment> \<open>\<open>'training_attempt'\<close>\<close>

datatype health_status =
    Status_good           \<comment> \<open>the initial \<open>health_status\<close>, "good"\<close>
  | Status_senior         \<comment> \<open>"old age", set by \<open>age_up\<close>\<close>

datatype status_notes =
    No_notes              \<comment> \<open>the empty string\<close>
  | Senior_needs_care     \<comment> \<open>"entering old age, needs more attention"\<close>

text \<open>The descriptions: one constructor per f-string, with its interpolated values.\<close>

datatype description =
    D_registered str                     \<comment> \<open>name\<close>
  | D_fed str real                       \<comment> \<open>food_type, amount\<close>
  | D_exercised str int                  \<comment> \<open>exercise_type, duration\<close>
  | D_slept int                          \<comment> \<open>duration\<close>
  | D_grew int int                       \<comment> \<open>old_age, new age\<close>
  | D_status_updated health_status status_notes
  | D_mammal_registered str str          \<comment> \<open>name, fur_color\<close>
  | D_temperature real real              \<comment> \<open>ambient_temp, body_temperature\<close>
  | D_groomed int                        \<comment> \<open>duration_minutes\<close>
  | D_shed str real                      \<comment> \<open>season, fur_shed_amount\<close>
  | D_nursed int real                    \<comment> \<open>offspring_count, energy_cost\<close>
  | D_territory real                     \<comment> \<open>territory_size_sqm\<close>
  | D_caught str                         \<comment> \<open>prey_type\<close>
  | D_escaped str                        \<comment> \<open>prey_type\<close>
  | D_migrated str real                  \<comment> \<open>destination, distance_km\<close>
  | D_hibernation real                   \<comment> \<open>weight_gain\<close>
  | D_canine_registered str real         \<comment> \<open>name, bite_force_psi\<close>
  | D_dug int str                        \<comment> \<open>depth_cm, purpose\<close>
  | D_buried str str                     \<comment> \<open>location, item\<close>
  | D_retrieved str str                  \<comment> \<open>location, item\<close>
  | D_played str int                     \<comment> \<open>object_type, duration_minutes\<close>
  | D_obeyed str                         \<comment> \<open>command\<close>
  | D_disobeyed str                      \<comment> \<open>command\<close>
  | D_pack_caught str str                \<comment> \<open>prey_type, prey_size\<close>
  | D_tracked str real                   \<comment> \<open>scent_type, distance_tracked\<close>
  | D_trail_lost str                     \<comment> \<open>scent_type\<close>
  | D_learned str int                    \<comment> \<open>command, repetitions\<close>
  | D_needs_practice str                 \<comment> \<open>command\<close>

text \<open>The messages of the exceptions raised and of the dictionaries returned.\<close>

datatype message =
    Dead_cannot_feed str                 \<comment> \<open>name: "... has died, cannot be fed"\<close>
  | Dead_cannot_exercise str             \<comment> \<open>name: "... has died, cannot exercise"\<close>
  | Too_tired_needs_rest str             \<comment> \<open>name: "... is too tired, needs rest"\<close>
  | Math_domain_error                    \<comment> \<open>raised by \<open>math.sqrt\<close> and \<open>math.log\<close>\<close>
  | Animal_is_dead                       \<comment> \<open>"the animal has died"\<close>
  | Not_lactating                        \<comment> \<open>"not in the nursing period"\<close>
  | Only_females_nurse                   \<comment> \<open>"only females can nurse"\<close>
  | No_energy_to_nurse                   \<comment> \<open>"not enough energy to nurse fully"\<close>
  | Weak_territoriality                  \<comment> \<open>"the species has a weak sense of territory"\<close>
  | No_energy_to_hunt                    \<comment> \<open>"not enough energy to hunt"\<close>
  | Does_not_migrate                     \<comment> \<open>"the species does not migrate"\<close>
  | No_energy_to_migrate                 \<comment> \<open>"not enough energy to complete the migration"\<close>
  | Cannot_hibernate                     \<comment> \<open>"the species cannot hibernate"\<close>
  | No_energy_to_track                   \<comment> \<open>"not enough energy to track"\<close>
  | No_energy_to_dig                     \<comment> \<open>"not enough energy to dig"\<close>
  | Nothing_buried                       \<comment> \<open>"there are no buried items"\<close>
  | Buried_item_not_found                \<comment> \<open>"the buried item cannot be found"\<close>
  | Too_tired_to_play                    \<comment> \<open>"too tired to play"\<close>
  | Already_learned str                  \<comment> \<open>command: "has already learned the command"\<close>
  | Command_not_known str                \<comment> \<open>command: "does not know the command"\<close>
  | Lacks_pack_instinct                  \<comment> \<open>"lacks the pack instinct"\<close>
  | Needs_one_other_member               \<comment> \<open>"at least one other member is needed"\<close>
  | No_suitable_members                  \<comment> \<open>"no suitable pack members"\<close>
  | No_pack_members                      \<comment> \<open>"no pack members"\<close>

datatype error =
    ValueError message
  | OverflowError
  | TypeError
  | ZeroDivisionError
  | AttributeError
  | IndexError

section \<open>The pseudo-random generator\<close>

text \<open>
  The source draws from the module \<open>random\<close>, whose generator is global and seedable.
  A generator is a state \<open>'g\<close> (fixed by the seed) and the two primitives every draw of
  the source goes through: \<open>random.random()\<close> and the integer draw below a bound that
  \<open>randint\<close> and \<open>choice\<close> use. Each returns the value drawn and the next state.
\<close>

record 'g prng =
  next_random :: "'g \<Rightarrow> real \<times> 'g"
  next_randbelow :: "nat \<Rightarrow> 'g \<Rightarrow> nat \<times> 'g"

definition uniform :: "'g prng \<Rightarrow> real \<Rightarrow> real \<Rightarrow> 'g \<Rightarrow> real \<times> 'g" where
  "uniform P a b g = (case next_random P g of (u, g') \<Rightarrow> (a + (b - a) * u, g'))"

definition randint :: "'g prng \<Rightarrow> int \<Rightarrow> int \<Rightarrow> 'g \<Rightarrow> int \<times> 'g" where
  "randint P a b g =
     (case next_randbelow P (nat (b - a + 1)) g of (k, g') \<Rightarrow> (a + int k, g'))"

text \<open>\<open>random.random()\<close> returns a float in the half-open interval from 0 to 1.\<close>

definition unit_draws :: "'g prng \<Rightarrow> bool" where
  "unit_draws P = (\<forall>g. 0 \<le> fst (next_random P g) \<and> fst (next_random P g) < 1)"

text \<open>
  The conversion of an \<open>int\<close> to a float rounds to the nearest float and raises
  \<open>OverflowError\<close> from the half-way point above the largest float on, that is for a
  magnitude of at least \<open>2 ** 1024 - 2 ** 970\<close>. A true division \<open>a / b\<close> of two
  integers is computed from the exact quotient and raises \<open>OverflowError\<close> when
  that quotient is as large.
\<close>

definition float_limit :: real where
  "float_limit = 2 ^ 1024 - 2 ^ 970"

definition fits_float :: "int \<Rightarrow> bool" where
  "fits_float n = (\<bar>of_int n\<bar> < float_limit)"

definition quotient_fits_float :: "int \<Rightarrow> int \<Rightarrow> bool" where
  "quotient_fits_float a b = (\<bar>of_int a / of_int b\<bar> < float_limit)"

definition max_str_digits :: nat where
  "max_str_digits = 4300"

definition digits_within_limit :: "int \<Rightarrow> bool" where
  "digits_within_limit n = (\<bar>n\<bar> < 10 ^ max_str_digits)"

text \<open>\<open>d.get(k, default)\<close> on the result of looking \<open>k\<close> up in \<open>d\<close>.\<close>

definition get_or :: "'a option \<Rightarrow> 'a \<Rightarrow> 'a" where
  "get_or v d = (case v of None \<Rightarrow> d | Some x \<Rightarrow> x)"

text \<open>
  \<open>round(x, ndigits)\<close>: the nearest multiple of \<open>10 ** -ndigits\<close>, a tie going to the
  even one.
\<close>

definition round_half_even :: "real \<Rightarrow> int" where
  "round_half_even y =
     (let f = \<lfloor>y\<rfloor>; d = y - of_int f
      in if d < 1 / 2 then f else if d > 1 / 2 then f + 1
         else if even f then f else f + 1)"

definition py_round :: "nat \<Rightarrow> real \<Rightarrow> real" where
  "py_round ndigits x = of_int (round_half_even (x * 10 ^ ndigits)) / 10 ^ ndigits"

section \<open>animal.py\<close>

subsection \<open>AnimalRecord\<close>

record animal_record =
  record_type :: record_type
  description :: description
  timestamp :: datetime
  rec_id :: "record_type \<times> int"

text \<open>\<open>_generate_id\<close> joins the record type and the timestamp formatted to the second.\<close>

definition generate_id :: "record_type \<Rightarrow> datetime \<Rightarrow> record_type \<times> int" where
  "generate_id rt ts = (rt, ts div 1000000)"

definition AnimalRecord :: "datetime \<Rightarrow> record_type \<Rightarrow> description \<Rightarrow> animal_record" where
  "AnimalRecord now rt d =
     \<lparr>record_type = rt, description = d, timestamp = now, rec_id = generate_id rt now\<rparr>"

subsection \<open>AnimalHealth\<close>

text \<open>
  Of \<open>AnimalHealth\<close> the fields that \<open>update_health_status\<close> writes are kept; the lists
  \<open>vaccinations\<close>, \<open>allergies\<close> and \<open>medications\<close> are touched by no method of the three
  animal classes.
\<close>

record animal_health =
  health_status :: health_status
  last_checkup :: "datetime option"
  medical_records :: "animal_record list"

definition AnimalHealth_init :: animal_health where
  "AnimalHealth_init =
     \<lparr>health_status = Status_good, last_checkup = None, medical_records = []\<rparr>"

definition add_medical_record ::
  "datetime \<Rightarrow> record_type \<Rightarrow> description \<Rightarrow> animal_health \<Rightarrow> animal_health" where
  "add_medical_record now rt d h =
     h\<lparr>medical_records := medical_records h @ [AnimalRecord now rt d]\<rparr>"

definition update_health_status ::
  "datetime \<Rightarrow> health_status \<Rightarrow> status_notes \<Rightarrow> animal_health \<Rightarrow> animal_health" where
  "update_health_status now status nts h =
     (let h1 = h\<lparr>health_status := status, last_checkup := Some now\<rparr>
      in if nts \<noteq> No_notes
         then add_medical_record now Rt_checkup (D_status_updated status nts) h1
         else h1)"

subsection \<open>Animal\<close>

text \<open>The class variables \<open>total_animals\<close>, \<open>species_registry\<close>, \<open>mammal_count\<close>, \<open>canine_count\<close>.\<close>

record registry =
  total_animals :: nat
  species_registry :: "str \<rightharpoonup> nat"
  mammal_count :: nat
  canine_count :: nat

text \<open>
  \<open>animal_id\<close> is a string made of three parts: the first three characters of the
  species, which the source writes in upper case, the timestamp to the second and the
  count of animals in four digits. The field keeps the three parts, the first as it
  is before \<open>upper()\<close>.
\<close>

record animal =
  name :: str
  species :: str
  age :: int
  weight :: real
  owner :: str
  gender :: str
  animal_id :: "str \<times> int \<times> nat"
  is_alive :: bool
  is_hungry :: bool
  is_sleeping :: bool
  energy_level :: real
  happiness_level :: real
  birth_date :: datetime
  registration_date :: datetime
  last_fed :: "datetime option"
  last_exercise :: "datetime option"
  health :: animal_health
  activity_log :: "animal_record list"
  favorite_activities :: "str list"

definition generate_animal_id :: "datetime \<Rightarrow> str \<Rightarrow> registry \<Rightarrow> str \<times> int \<times> nat" where
  "generate_animal_id now sp reg = (take 3 sp, now div 1000000, total_animals reg)"

definition log_activity ::
  "datetime \<Rightarrow> record_type \<Rightarrow> description \<Rightarrow> 'a animal_scheme \<Rightarrow> 'a animal_scheme" where
  "log_activity now activity_type d s =
     s\<lparr>activity_log := activity_log s @ [AnimalRecord now activity_type d]\<rparr>"

text \<open>
  \<open>Animal.__init__\<close>. Computing \<open>birth_date\<close> is the one step that can fail:
  \<open>timedelta(days=age*365)\<close> and the subtraction raise \<open>OverflowError\<close> outside their
  ranges, before the class counters are touched.
\<close>

definition Animal_init ::
  "datetime \<Rightarrow> str \<Rightarrow> str \<Rightarrow> int \<Rightarrow> real \<Rightarrow> str \<Rightarrow> str \<Rightarrow> registry
     \<Rightarrow> (error + animal) \<times> registry" where
  "Animal_init now nm sp ag wt ow gd reg =
     (let days = ag * 365;
          born = now - days * microseconds_per_day
      in if \<bar>days\<bar> > timedelta_max_days \<or> born < 0 \<or> born > datetime_max
         then (Inl OverflowError, reg)
         else
           let s = \<lparr>name = nm, species = sp, age = ag, weight = wt, owner = ow, gender = gd,
                    animal_id = generate_animal_id now sp reg,
                    is_alive = True, is_hungry = False, is_sleeping = False,
                    energy_level = 100, happiness_level = 80,
                    birth_date = born, registration_date = now,
                    last_fed = None, last_exercise = None,
                    health = AnimalHealth_init,
                    activity_log = [], favorite_activities = []\<rparr>;
               reg' = reg\<lparr>total_animals := total_animals reg + 1,
                          species_registry := (species_registry reg)
                            (sp \<mapsto> (case species_registry reg sp of None \<Rightarrow> 0 | Some c \<Rightarrow> c) + 1)\<rparr>
           in (Inr (log_activity now Rt_created (D_registered nm) s), reg'))"

text \<open>
  What a call gives back: \<open>Inl e\<close> when it raised \<open>e\<close>, \<open>Inr r\<close> when it returned \<open>r\<close>.
  \<open>feed\<close>, \<open>exercise\<close>, \<open>sleep\<close> and \<open>age_up\<close> return \<open>None\<close>, here \<open>()\<close>.
\<close>

definition feed ::
  "datetime \<Rightarrow> str \<Rightarrow> real \<Rightarrow> 'a animal_scheme \<Rightarrow> (error + unit) \<times> 'a animal_scheme" where
  "feed now food_type amount s =
     (if \<not> is_alive s then (Inl (ValueError (Dead_cannot_feed (name s))), s)
      else
        let s1 = s\<lparr>is_hungry := False\<rparr>;
            s2 = s1\<lparr>energy_level := min 100 (energy_level s1 + 20)\<rparr>;
            s3 = s2\<lparr>happiness_level := min 100 (happiness_level s2 + 10)\<rparr>;
            s4 = s3\<lparr>last_fed := Some now\<rparr>
        in (Inr (), log_activity now Rt_feeding (D_fed food_type amount) s4))"

definition exercise ::
  "datetime \<Rightarrow> str \<Rightarrow> int \<Rightarrow> 'a animal_scheme \<Rightarrow> (error + unit) \<times> 'a animal_scheme" where
  "exercise now exercise_type duration s =
     (if \<not> is_alive s then (Inl (ValueError (Dead_cannot_exercise (name s))), s)
      else if energy_level s < 20 then (Inl (ValueError (Too_tired_needs_rest (name s))), s)
      else
        let s1 = s\<lparr>energy_level := max 0 (energy_level s - 15)\<rparr>;
            s2 = s1\<lparr>happiness_level := min 100 (happiness_level s1 + 15)\<rparr>;
            s3 = s2\<lparr>last_exercise := Some now\<rparr>;
            s4 = (if exercise_type \<notin> set (favorite_activities s3)
                  then s3\<lparr>favorite_activities := favorite_activities s3 @ [exercise_type]\<rparr>
                  else s3)
        in (Inr (), log_activity now Rt_exercise (D_exercised exercise_type duration) s4))"

text \<open>
  \<open>sleep\<close> sets \<open>is_sleeping\<close>, logs, waits a tenth of a second and clears
  \<open>is_sleeping\<close> again.
\<close>

definition sleep ::
  "datetime \<Rightarrow> int \<Rightarrow> 'a animal_scheme \<Rightarrow> (error + unit) \<times> 'a animal_scheme" where
  "sleep now duration s =
     (if \<not> is_alive s then (Inr (), s)
      else
        let s1 = s\<lparr>is_sleeping := True\<rparr>;
            s2 = s1\<lparr>energy_level := min 100 (energy_level s1 + of_int (duration * 5))\<rparr>;
            s3 = log_activity now Rt_rest (D_slept duration) s2
        in (Inr (), s3\<lparr>is_sleeping := False\<rparr>))"

text \<open>
  \<open>get_life_expectancy\<close> is abstract in \<open>Animal\<close>; \<open>age_up\<close> takes the override of the
  object's class as its first argument. The override of \<open>Canine\<close> draws from the
  generator, so an override maps the object and the generator state to the value and
  the next generator state.
\<close>

definition age_up ::
  "('a animal_scheme \<Rightarrow> 'g \<Rightarrow> int \<times> 'g) \<Rightarrow> datetime \<Rightarrow> int \<Rightarrow> 'a animal_scheme \<times> 'g
     \<Rightarrow> (error + unit) \<times> 'a animal_scheme \<times> 'g" where
  "age_up get_life_expectancy now years sg =
     (case sg of (s, g) \<Rightarrow>
        if \<not> is_alive s then (Inr (), s, g)
        else
          let old_age = age s;
              s1 = s\<lparr>age := age s + years\<rparr>;
              (le, g1) = get_life_expectancy s1 g;
              s2 = (if of_int (age s1) > of_int le * (0.8::real)
                    then s1\<lparr>health := update_health_status now Status_senior
                                         Senior_needs_care (health s1)\<rparr>
                    else s1)
          in (Inr (), log_activity now Rt_growth (D_grew old_age (age s2)) s2, g1))"

section \<open>Returned dictionaries\<close>

text \<open>
  The methods of \<open>Mammal\<close> and \<open>Canine\<close> return a dictionary with a \<open>'status'\<close> key. Each
  shape of dictionary is a constructor carrying the values of its other keys, in the
  order of the source; keys whose value is a constant of the source are not repeated.
\<close>

datatype mechanism =
    Shivering             \<comment> \<open>"shivering, vasoconstriction"\<close>
  | Sweating              \<comment> \<open>"sweating, vasodilation, panting"\<close>
  | Normal_metabolism     \<comment> \<open>"kept by normal metabolism"\<close>

datatype comfort_level = Comfortable | Stressed

datatype trail_quality = Clear | Faint

datatype fun_level = High | Moderate

datatype item_condition =
    Fresh                 \<comment> \<open>"fresh", on burial\<close>
  | Spoiled               \<comment> \<open>"gone bad"\<close>
  | Fair                  \<comment> \<open>"so-so"\<close>
  | Good                  \<comment> \<open>"good"\<close>

datatype execution_quality = Excellent | Good_execution

datatype failure_reason = Distracted | Too_tired

datatype reply =
    Error_reply message                      \<comment> \<open>status \<open>'error'\<close>: message\<close>
  | Insufficient_energy message              \<comment> \<open>status \<open>'insufficient_energy'\<close>: message\<close>
  | Not_applicable message                   \<comment> \<open>status \<open>'not_applicable'\<close>: message\<close>
  | Temperature_regulated real mechanism real comfort_level
      \<comment> \<open>current_temperature, mechanism, energy_cost, comfort_level\<close>
  | Nursed real real real
      \<comment> \<open>milk_produced, energy_consumed, additional_caloric_needs\<close>
  | Territory_established real real real real
      \<comment> \<open>territory_size, optimal_size, quality_score, happiness_impact\<close>
  | Hunt_success str real real               \<comment> \<open>prey_caught, energy_gained, net_energy_change\<close>
  | Hunt_failed real str                     \<comment> \<open>energy_lost, prey_escaped\<close>
  | Migrated str real real real
      \<comment> \<open>destination, distance_traveled, energy_consumed, estimated_travel_time_days\<close>
  | Hibernation_ready real real real         \<comment> \<open>weight_gained, new_weight, energy_stored\<close>
  | Track_success str real real trail_quality
      \<comment> \<open>scent_type, distance_tracked_km, tracking_time_hours, trail_quality\<close>
  | Track_failed str real                    \<comment> \<open>scent_type, energy_wasted\<close>
  | Dig_success str int str real             \<comment> \<open>location, depth_cm, purpose, energy_consumed\<close>
  | Bury_success str str datetime            \<comment> \<open>item, location, burial_time\<close>
  | Not_found message                        \<comment> \<open>status \<open>'not_found'\<close>: message\<close>
  | Retrieve_success str str item_condition int
      \<comment> \<open>item, location, condition, burial_duration_days\<close>
  | Play_success str int real real fun_level
      \<comment> \<open>object, duration_minutes, happiness_gained, energy_consumed, fun_level\<close>
  | Already_known message                    \<comment> \<open>status \<open>'already_known'\<close>: message\<close>
  | Learn_success str int str                \<comment> \<open>command, repetitions_needed, trainer\<close>
  | Learn_progress str int                   \<comment> \<open>command, repetitions_completed\<close>
  | Unknown_command message                  \<comment> \<open>status \<open>'unknown_command'\<close>: message\<close>
  | Obey_success str execution_quality "(string \<times> int) list"
      \<comment> \<open>command, execution_quality, effects\<close>
  | Obey_failed str failure_reason           \<comment> \<open>command, reason\<close>
  | Insufficient_members message             \<comment> \<open>status \<open>'insufficient_members'\<close>: message\<close>
  | No_eligible_members message              \<comment> \<open>status \<open>'no_eligible_members'\<close>: message\<close>
  | Coordinated_success str                  \<comment> \<open>prey_size, from \<open>coordinate_hunt\<close>\<close>
  | Coordinated_failed str                   \<comment> \<open>prey_size, from \<open>coordinate_hunt\<close>\<close>
  | Pack_hunt_success str real str real
      \<comment> \<open>prey_size, energy_gained, pack_role, the multiplier in sharing_ratio\<close>

datatype status =
    St_error | St_insufficient_energy | St_not_applicable | St_success | St_failed
  | St_ready | St_not_found | St_already_known | St_progress | St_unknown_command
  | St_insufficient_members | St_no_eligible_members

fun status_of :: "reply \<Rightarrow> status" where
  "status_of (Error_reply m) = St_error"
| "status_of (Insufficient_energy m) = St_insufficient_energy"
| "status_of (Not_applicable m) = St_not_applicable"
| "status_of (Temperature_regulated t m e c) = St_success"
| "status_of (Nursed m e a) = St_success"
| "status_of (Territory_established t ob q h) = St_success"
| "status_of (Hunt_success p e n) = St_success"
| "status_of (Hunt_failed e p) = St_failed"
| "status_of (Migrated d k e t) = St_success"
| "status_of (Hibernation_ready g w e) = St_ready"
| "status_of (Track_success sc d t q) = St_success"
| "status_of (Track_failed sc e) = St_failed"
| "status_of (Dig_success l d p e) = St_success"
| "status_of (Bury_success i l t) = St_success"
| "status_of (Not_found m) = St_not_found"
| "status_of (Retrieve_success i l c d) = St_success"
| "status_of (Play_success ob d h e f) = St_success"
| "status_of (Already_known m) = St_already_known"
| "status_of (Learn_success c r t) = St_success"
| "status_of (Learn_progress c r) = St_progress"
| "status_of (Unknown_command m) = St_unknown_command"
| "status_of (Obey_success c q e) = St_success"
| "status_of (Obey_failed c r) = St_failed"
| "status_of (Insufficient_members m) = St_insufficient_members"
| "status_of (No_eligible_members m) = St_no_eligible_members"
| "status_of (Coordinated_success p) = St_success"
| "status_of (Coordinated_failed p) = St_failed"
| "status_of (Pack_hunt_success p e r m) = St_success"

section \<open>mammal.py\<close>

text \<open>The literals that the methods of \<open>Mammal\<close> compare with or assign.\<close>

definition str_female :: str where         \<comment> \<open>"female"\<close>
  "str_female = [0x96CC, 0x6027]"

definition str_gregarious :: str where     \<comment> \<open>"living in groups"\<close>
  "str_gregarious = [0x7FA4, 0x5C45]"

definition str_solitary :: str where       \<comment> \<open>"living alone"\<close>
  "str_solitary = [0x72EC, 0x5C45]"

definition str_medium :: str where         \<comment> \<open>"medium"\<close>
  "str_medium = [0x4E2D, 0x7B49]"

definition str_low :: str where            \<comment> \<open>"low"\<close>
  "str_low = [0x4F4E]"

definition str_none :: str where           \<comment> \<open>"none"\<close>
  "str_none = [0x65E0]"

definition chr_thin :: nat where           \<comment> \<open>the character "thin"\<close>
  "chr_thin = 0x8584"

definition chr_thick :: nat where          \<comment> \<open>the character "thick"\<close>
  "chr_thick = 0x539A"

definition str_thick_coat :: str where     \<comment> \<open>"thick coat"\<close>
  "str_thick_coat = [0x539A, 0x6BDB]"

definition str_thin_coat :: str where      \<comment> \<open>"thin coat"\<close>
  "str_thin_coat = [0x8584, 0x6BDB]"

definition str_medium_coat :: str where    \<comment> \<open>"medium coat"\<close>
  "str_medium_coat = [0x4E2D, 0x7B49, 0x6BDB]"

definition str_autumn :: str where         \<comment> \<open>"autumn"\<close>
  "str_autumn = [0x79CB, 0x5B63]"

definition str_winter :: str where         \<comment> \<open>"winter"\<close>
  "str_winter = [0x51AC, 0x5B63]"

subsection \<open>MammalNutrition\<close>

text \<open>
  Of \<open>MammalNutrition\<close> the fields that \<open>nurse_offspring\<close> reads are kept, with
  \<open>lactation_start\<close>; of \<open>MammalBreeding\<close> no method of \<open>Mammal\<close> or \<open>Canine\<close> reads
  or writes anything.
\<close>

record mammal_nutrition =
  is_lactating :: bool
  lactation_start :: "datetime option"
  milk_production_rate :: real

definition MammalNutrition_init :: mammal_nutrition where
  "MammalNutrition_init =
     \<lparr>is_lactating = False, lactation_start = None, milk_production_rate = 0\<rparr>"

definition activity_multipliers :: "(string \<times> real) list" where
  "activity_multipliers =
     [(''sedentary'', 1.2), (''light'', 1.375), (''moderate'', 1.55), (''active'', 1.725),
      (''very_active'', 1.9)]"

text \<open>
  \<open>calculate_caloric_needs\<close> returns the dictionary of \<open>'bmr'\<close>, \<open>'daily_needs'\<close> and
  \<open>'lactation_extra'\<close>. A negative \<open>base_weight\<close> raised to the power 0.75 is a complex
  number, on which \<open>round\<close> raises \<open>TypeError\<close>.
\<close>

definition calculate_caloric_needs ::
  "mammal_nutrition \<Rightarrow> real \<Rightarrow> string \<Rightarrow> error + real \<times> real \<times> real" where
  "calculate_caloric_needs n base_weight activity_level =
     (let bmr = 70 * (base_weight powr 0.75);
          daily_calories = bmr * get_or (map_of activity_multipliers activity_level) 1.55;
          daily_calories =
            (if is_lactating n then daily_calories + milk_production_rate n * 500
             else daily_calories)
      in if base_weight < 0 then Inl TypeError
         else Inr (py_round 2 bmr, py_round 2 daily_calories,
                   if is_lactating n then py_round 2 (milk_production_rate n * 500) else 0))"

subsection \<open>Mammal\<close>

text \<open>
  Of the attributes that \<open>Mammal.__init__\<close> adds, those are kept that a method modelled
  here reads or writes, and those set from an argument. \<open>fur_condition\<close> does not exist
  until \<open>groom_fur\<close> creates it: \<open>None\<close> is its absence. The class variable
  \<open>body_temperature_range\<close> is a constant.
\<close>

record mammal = animal +
  fur_color :: str
  fur_type :: str
  body_temperature :: real
  fur_condition :: "real option"
  social_behavior :: str
  territoriality :: str
  migration_pattern :: str
  nutrition :: mammal_nutrition
  seasonal_coat_change :: bool
  hibernation_capable :: bool
  winter_weight_gain :: real
  max_speed_kmh :: real
  temperature_tolerance :: "real \<times> real"

definition body_temperature_range :: "real \<times> real" where
  "body_temperature_range = (36.0, 39.0)"

definition Mammal_init ::
  "'g prng \<Rightarrow> datetime \<Rightarrow> str \<Rightarrow> str \<Rightarrow> int \<Rightarrow> real \<Rightarrow> str \<Rightarrow> str
     \<Rightarrow> str \<Rightarrow> str \<Rightarrow> registry \<times> 'g \<Rightarrow> (error + mammal) \<times> registry \<times> 'g" where
  "Mammal_init P now nm sp ag wt ow gd fc ft rg =
     (case rg of (reg, g) \<Rightarrow>
        (case Animal_init now nm sp ag wt ow gd reg of
           (Inl e, reg1) \<Rightarrow> (Inl e, reg1, g)
         | (Inr a, reg1) \<Rightarrow>
             let (bt, g1) = uniform P (fst body_temperature_range)
                              (snd body_temperature_range) g;
                 m = animal.extend a
                       (mammal.fields fc ft bt None str_gregarious str_medium str_none
                          MammalNutrition_init False False 0 0 (- 10, 35));
                 reg2 = reg1\<lparr>mammal_count := mammal_count reg1 + 1\<rparr>
             in (Inr (log_activity now Rt_mammal_created (D_mammal_registered nm fc) m),
                 reg2, g1)))"

definition regulate_body_temperature ::
  "datetime \<Rightarrow> real \<Rightarrow> 'a mammal_scheme \<Rightarrow> (error + reply) \<times> 'a mammal_scheme" where
  "regulate_body_temperature now ambient_temp s =
     (if \<not> is_alive s then (Inr (Error_reply Animal_is_dead), s)
      else
        let temp_diff = \<bar>body_temperature s - ambient_temp\<bar>;
            (s1, energy_cost, mech) =
              (if ambient_temp < fst (temperature_tolerance s)
               then (s\<lparr>body_temperature :=
                          min (snd body_temperature_range) (body_temperature s + 0.5)\<rparr>,
                     temp_diff * 2, Shivering)
               else if ambient_temp > snd (temperature_tolerance s)
               then (s\<lparr>body_temperature :=
                          max (fst body_temperature_range) (body_temperature s - 0.3)\<rparr>,
                     temp_diff * 1.5, Sweating)
               else
                 let target_temp =
                       (fst body_temperature_range + snd body_temperature_range) / 2
                 in (s\<lparr>body_temperature :=
                          body_temperature s + (target_temp - body_temperature s) * 0.1\<rparr>,
                     0, Normal_metabolism));
            s2 = s1\<lparr>energy_level := max 0 (energy_level s1 - energy_cost)\<rparr>;
            s3 = log_activity now Rt_thermoregulation
                   (D_temperature ambient_temp (body_temperature s2)) s2
        in (Inr (Temperature_regulated (py_round 1 (body_temperature s3)) mech
                   (py_round 1 energy_cost)
                   (if fst (temperature_tolerance s3) \<le> ambient_temp
                       \<and> ambient_temp \<le> snd (temperature_tolerance s3)
                    then Comfortable else Stressed)),
            s3))"

definition groom_fur ::
  "datetime \<Rightarrow> int \<Rightarrow> 'a mammal_scheme \<Rightarrow> (error + unit) \<times> 'a mammal_scheme" where
  "groom_fur now duration_minutes s =
     (if \<not> is_alive s then (Inr (), s)
      else
        let s1 = s\<lparr>happiness_level := min 100 (happiness_level s + 8)\<rparr>;
            s2 = s1\<lparr>energy_level := max 0 (energy_level s1 - 5)\<rparr>;
            s3 = (case fur_condition s2 of
                    Some fc \<Rightarrow> s2\<lparr>fur_condition := Some (min 100 (fc + 10))\<rparr>
                  | None \<Rightarrow> s2\<lparr>fur_condition := Some 90\<rparr>)
        in (Inr (), log_activity now Rt_grooming (D_groomed duration_minutes) s3))"

definition shed_fur ::
  "'g prng \<Rightarrow> datetime \<Rightarrow> str \<Rightarrow> 'a mammal_scheme \<times> 'g
     \<Rightarrow> (error + unit) \<times> 'a mammal_scheme \<times> 'g" where
  "shed_fur P now season sg =
     (case sg of (s, g) \<Rightarrow>
        if \<not> seasonal_coat_change s then (Inr (), s, g)
        else
          let (fur_shed_amount, g1) = uniform P 0.1 0.3 g;
              s1 = (if season \<in> set [str_autumn, str_winter]
                    then s\<lparr>fur_type := (if chr_thin \<notin> set (fur_type s)
                                         then str_thick_coat else str_medium_coat)\<rparr>
                    else s\<lparr>fur_type := (if chr_thick \<notin> set (fur_type s)
                                         then str_thin_coat else str_medium_coat)\<rparr>)
          in (Inr (), log_activity now Rt_shedding (D_shed season fur_shed_amount) s1, g1))"

text \<open>
  \<open>nurse_offspring\<close> converts \<open>offspring_count\<close> before it writes anything. The levels
  are written before \<open>calculate_caloric_needs\<close> is
  called: when that raises, the object keeps the new levels and nothing is logged.
\<close>

definition nurse_offspring ::
  "datetime \<Rightarrow> int \<Rightarrow> 'a mammal_scheme \<Rightarrow> (error + reply) \<times> 'a mammal_scheme" where
  "nurse_offspring now offspring_count s =
     (if \<not> is_lactating (nutrition s) then (Inr (Error_reply Not_lactating), s)
      else if gender s \<noteq> str_female then (Inr (Error_reply Only_females_nurse), s)
      else if \<not> fits_float offspring_count then (Inl OverflowError, s)
      else
        let milk_needed = of_int offspring_count * 0.2;
            energy_cost = milk_needed * 30
        in if energy_level s < energy_cost
           then (Inr (Insufficient_energy No_energy_to_nurse), s)
           else
             let s1 = s\<lparr>energy_level := energy_level s - energy_cost\<rparr>;
                 s2 = s1\<lparr>happiness_level := min 100 (happiness_level s1 + 15)\<rparr>
             in (case calculate_caloric_needs (nutrition s2) (weight s2) ''moderate'' of
                   Inl e \<Rightarrow> (Inl e, s2)
                 | Inr (bmr, daily_needs, lactation_extra) \<Rightarrow>
                     (Inr (Nursed (py_round 2 milk_needed) energy_cost lactation_extra),
                      log_activity now Rt_nursing (D_nursed offspring_count energy_cost) s2)))"

text \<open>The division by \<open>optimal_size\<close> raises \<open>ZeroDivisionError\<close> when \<open>weight\<close> is 0.\<close>

definition establish_territory ::
  "datetime \<Rightarrow> real \<Rightarrow> 'a mammal_scheme \<Rightarrow> (error + reply) \<times> 'a mammal_scheme" where
  "establish_territory now territory_size_sqm s =
     (if territoriality s = str_low then (Inr (Not_applicable Weak_territoriality), s)
      else
        let optimal_size = weight s * 100;
            optimal_size = (if social_behavior s = str_solitary then optimal_size * 2
                            else if social_behavior s = str_gregarious then optimal_size * 0.5
                            else optimal_size)
        in if optimal_size = 0 then (Inl ZeroDivisionError, s)
           else
             let territory_quality = min 100 ((territory_size_sqm / optimal_size) * 100);
                 happiness_change = (territory_quality - 50) * 0.3;
                 s1 = s\<lparr>happiness_level :=
                          max 0 (min 100 (happiness_level s + happiness_change))\<rparr>;
                 s2 = log_activity now Rt_territory (D_territory territory_size_sqm) s1
             in (Inr (Territory_established territory_size_sqm (py_round 0 optimal_size)
                        (py_round 1 territory_quality) (py_round 1 happiness_change)),
                 s2))"

text \<open>
  The division by \<open>max_speed_kmh * 8\<close>, made before the energy is tested, raises
  \<open>ZeroDivisionError\<close> when \<open>max_speed_kmh\<close> is 0, the value the constructor gives it.
\<close>

definition migrate ::
  "datetime \<Rightarrow> str \<Rightarrow> real \<Rightarrow> 'a mammal_scheme \<Rightarrow> (error + reply) \<times> 'a mammal_scheme" where
  "migrate now destination distance_km s =
     (if migration_pattern s = str_none then (Inr (Not_applicable Does_not_migrate), s)
      else
        let migration_energy_cost = distance_km * 0.5
        in if max_speed_kmh s * 8 = 0 then (Inl ZeroDivisionError, s)
           else
             let migration_time_days = distance_km / (max_speed_kmh s * 8)
             in if energy_level s < migration_energy_cost
                then (Inr (Insufficient_energy No_energy_to_migrate), s)
                else
                  let s1 = s\<lparr>energy_level := energy_level s - migration_energy_cost\<rparr>;
                      s2 = s1\<lparr>happiness_level := min 100 (happiness_level s1 + 25)\<rparr>;
                      s3 = log_activity now Rt_migration (D_migrated destination distance_km) s2
                  in (Inr (Migrated destination distance_km migration_energy_cost
                             (py_round 1 migration_time_days)),
                      s3))"

definition prepare_for_hibernation ::
  "datetime \<Rightarrow> 'a mammal_scheme \<Rightarrow> (error + reply) \<times> 'a mammal_scheme" where
  "prepare_for_hibernation now s =
     (if \<not> hibernation_capable s then (Inr (Not_applicable Cannot_hibernate), s)
      else
        let weight_gain = weight s * 0.3;
            s1 = s\<lparr>weight := weight s + weight_gain\<rparr>;
            s2 = s1\<lparr>winter_weight_gain := weight_gain\<rparr>;
            s3 = s2\<lparr>energy_level := 95\<rparr>;
            s4 = log_activity now Rt_hibernation (D_hibernation weight_gain) s3
        in (Inr (Hibernation_ready (py_round 1 weight_gain) (py_round 1 (weight s4)) 95), s4))"

definition hunt_prey ::
  "'g prng \<Rightarrow> datetime \<Rightarrow> str \<Rightarrow> real \<Rightarrow> 'a mammal_scheme \<times> 'g
     \<Rightarrow> (error + reply) \<times> 'a mammal_scheme \<times> 'g" where
  "hunt_prey P now prey_type success_rate sg =
     (case sg of (s, g) \<Rightarrow>
        if energy_level s < 30
        then (Inr (Insufficient_energy No_energy_to_hunt), s, g)
        else
          let hunting_energy_cost = 25;
              s1 = s\<lparr>energy_level := energy_level s - hunting_energy_cost\<rparr>;
              (u, g1) = next_random P g
          in if u \<le> success_rate
             then
               let (prey_energy_gain, g2) = uniform P 40 60 g1;
                   s2 = s1\<lparr>energy_level := min 100 (energy_level s1 + prey_energy_gain)\<rparr>;
                   s3 = s2\<lparr>happiness_level := min 100 (happiness_level s2 + 20)\<rparr>;
                   s4 = s3\<lparr>is_hungry := False\<rparr>;
                   s5 = log_activity now Rt_hunting (D_caught prey_type) s4
               in (Inr (Hunt_success prey_type (py_round 1 prey_energy_gain)
                          (py_round 1 (prey_energy_gain - hunting_energy_cost))),
                   s5, g2)
             else
               let s2 = s1\<lparr>happiness_level := max 0 (happiness_level s1 - 10)\<rparr>;
                   s3 = log_activity now Rt_hunting (D_escaped prey_type) s2
               in (Inr (Hunt_failed hunting_energy_cost prey_type), s3, g1))"

definition Mammal_get_life_expectancy :: "'a mammal_scheme \<Rightarrow> 'g \<Rightarrow> int \<times> 'g" where
  "Mammal_get_life_expectancy s g =
     (let base_lifespan = 15
      in if weight s < 5 then (base_lifespan - 5, g)
         else if weight s > 100 then (base_lifespan + 10, g)
         else (base_lifespan, g))"

section \<open>canine.py\<close>

text \<open>The literals that the methods of \<open>Canine\<close> and \<open>PackBehavior\<close> compare with or assign.\<close>

definition str_location_prefix :: str where \<comment> \<open>"position" followed by an underscore\<close>
  "str_location_prefix = [0x4F4D, 0x7F6E, 0x5F]"

definition str_hide_food :: str where       \<comment> \<open>"hide food"\<close>
  "str_hide_food = [0x85CF, 0x98DF, 0x7269]"

definition str_store :: str where           \<comment> \<open>"store"\<close>
  "str_store = [0x50A8, 0x5B58]"

definition str_member :: str where          \<comment> \<open>"member"\<close>
  "str_member = [0x6210, 0x5458]"

definition str_alpha :: str where           \<comment> \<open>"leader"\<close>
  "str_alpha = [0x9996, 0x9886]"

definition str_beta :: str where            \<comment> \<open>"deputy leader"\<close>
  "str_beta = [0x526F, 0x9996, 0x9886]"

definition str_pup :: str where             \<comment> \<open>"pup"\<close>
  "str_pup = [0x5E7C, 0x5D3D]"

definition str_small :: str where           \<comment> \<open>"small"\<close>
  "str_small = [0x5C0F, 0x578B]"

definition str_mid :: str where             \<comment> \<open>"medium-sized"\<close>
  "str_mid = [0x4E2D, 0x578B]"

definition str_large :: str where           \<comment> \<open>"large"\<close>
  "str_large = [0x5927, 0x578B]"

definition str_easy :: str where            \<comment> \<open>"easy"\<close>
  "str_easy = [0x7B80, 0x5355]"

definition str_hard :: str where            \<comment> \<open>"hard"\<close>
  "str_hard = [0x56F0, 0x96BE]"

definition str_extreme :: str where         \<comment> \<open>"extremely hard"\<close>
  "str_extreme = [0x6781, 0x96BE]"

definition str_sit :: str where             \<comment> \<open>"sit"\<close>
  "str_sit = [0x5750, 0x4E0B]"

definition str_shake :: str where           \<comment> \<open>"shake hands"\<close>
  "str_shake = [0x63E1, 0x624B]"

definition str_down :: str where            \<comment> \<open>"lie down"\<close>
  "str_down = [0x8DB4, 0x4E0B]"

definition str_come :: str where            \<comment> \<open>"come"\<close>
  "str_come = [0x6765]"

definition str_stop :: str where            \<comment> \<open>"stop"\<close>
  "str_stop = [0x505C]"

subsection \<open>PackBehavior\<close>

text \<open>
  Of \<open>PackBehavior\<close> the fields that \<open>hunt_as_pack\<close> and \<open>coordinate_hunt\<close> read or
  write are kept; the members are held by their \<open>animal_id\<close>.
\<close>

record pack_behavior =
  pack_members :: "(str \<times> int \<times> nat) list"
  pack_role :: str
  hunting_contributions :: int

definition PackBehavior_init :: pack_behavior where
  "PackBehavior_init = \<lparr>pack_members = [], pack_role = str_member, hunting_contributions = 0\<rparr>"

definition base_success_rates :: "(str \<times> real) list" where
  "base_success_rates = [(str_small, 0.8), (str_mid, 0.6), (str_large, 0.4)]"

definition role_bonuses :: "(str \<times> real) list" where
  "role_bonuses = [(str_alpha, 0.1), (str_beta, 0.05), (str_member, 0), (str_pup, - 0.1)]"

definition coordinate_hunt ::
  "'g prng \<Rightarrow> str \<Rightarrow> nat \<Rightarrow> pack_behavior \<times> 'g \<Rightarrow> reply \<times> pack_behavior \<times> 'g" where
  "coordinate_hunt P prey_size pack_size pg =
     (case pg of (pb, g) \<Rightarrow>
        if pack_members pb = [] then (Error_reply No_pack_members, pb, g)
        else
          let base_rate = get_or (map_of base_success_rates prey_size) 0.6;
              pack_bonus = min 0.3 (of_nat pack_size * 0.05);
              role_bonus = get_or (map_of role_bonuses (pack_role pb)) 0;
              success_rate = base_rate + pack_bonus + role_bonus;
              (u, g1) = next_random P g
          in if u \<le> success_rate
             then (Coordinated_success prey_size,
                   pb\<lparr>hunting_contributions := hunting_contributions pb + 1\<rparr>, g1)
             else (Coordinated_failed prey_size, pb, g1))"

subsection \<open>Canine\<close>

text \<open>The dictionaries appended to \<open>digging_spots\<close>, \<open>buried_items\<close> and \<open>play_sessions\<close>.\<close>

record dig_spot =
  spot_location :: str
  spot_purpose :: str
  spot_depth_cm :: int
  spot_timestamp :: datetime
  spot_success :: bool

record buried_item =
  bi_item :: str
  bi_location :: str
  bi_burial_date :: datetime
  bi_retrieval_date :: "datetime option"
  bi_condition :: item_condition

record play_session =
  play_object :: str
  play_duration_minutes :: int
  play_timestamp :: datetime
  enjoyment_level :: real
  energy_spent :: real

text \<open>
  Of the attributes that \<open>Canine.__init__\<close> adds, those are kept that a method modelled
  here reads or writes, and the two set from arguments.
\<close>

record canine = mammal +
  bite_force_psi :: real
  pack_instinct :: bool
  loyalty_level :: int
  playfulness :: int
  pack_behavior :: pack_behavior
  digging_spots :: "dig_spot list"
  buried_items :: "buried_item list"
  tracking_records :: "animal_record list"
  play_sessions :: "play_session list"
  trainability_score :: int
  learned_commands :: "str list"
  training_sessions :: "animal_record list"
  scent_tracking_ability :: int
  pursuit_endurance_km :: real

text \<open>
  \<open>Canine.__init__\<close> draws, in this order: the tail variation, the ear type (a choice
  among three), the snout variation, \<open>loyalty_level\<close>, \<open>territorial_instinct\<close>,
  \<open>hunting_drive\<close>, \<open>playfulness\<close>, \<open>trainability_score\<close>, \<open>scent_tracking_ability\<close>,
  \<open>pursuit_endurance_km\<close> and \<open>cooperative_hunting_skill\<close>. Draws for attributes that are
  not kept still advance the generator. \<open>math.sqrt(weight)\<close>, evaluated before the first
  of these draws, raises \<open>ValueError\<close> on a negative weight.
\<close>

definition Canine_init ::
  "'g prng \<Rightarrow> datetime \<Rightarrow> str \<Rightarrow> str \<Rightarrow> int \<Rightarrow> real \<Rightarrow> str \<Rightarrow> str
     \<Rightarrow> str \<Rightarrow> str \<Rightarrow> real \<Rightarrow> bool \<Rightarrow> registry \<times> 'g
     \<Rightarrow> (error + canine) \<times> registry \<times> 'g" where
  "Canine_init P now nm sp ag wt ow gd fc ft bite pack rg =
     (case Mammal_init P now nm sp ag wt ow gd fc ft rg of
        (Inl e, reg1, g1) \<Rightarrow> (Inl e, reg1, g1)
      | (Inr m, reg1, g1) \<Rightarrow>
          if wt < 0 then (Inl (ValueError Math_domain_error), reg1, g1)
          else
            let (tail_variation, g2) = uniform P 0.8 1.2 g1;
                (ear_type, g3) = next_randbelow P 3 g2;
                (snout_variation, g4) = uniform P 0.9 1.1 g3;
                (loyalty, g5) = randint P 70 95 g4;
                (territorial_instinct, g6) = randint P 60 90 g5;
                (hunting_drive, g7) = randint P 50 95 g6;
                (playful, g8) = randint P 40 85 g7;
                (trainability, g9) = randint P 60 95 g8;
                (scent_tracking, g10) = randint P 80 98 g9;
                (pursuit_endurance, g11) = uniform P 5 25 g10;
                (cooperative_hunting_skill, g12) =
                   (if pack then randint P 70 95 g11 else randint P 30 60 g11);
                c = mammal.extend m
                      (canine.fields bite pack loyalty playful PackBehavior_init [] [] [] []
                         trainability [] [] scent_tracking pursuit_endurance);
                reg2 = reg1\<lparr>canine_count := canine_count reg1 + 1\<rparr>
            in (Inr (log_activity now Rt_canine_created (D_canine_registered nm bite) c),
                reg2, g12))"

text \<open>
  \<open>track_scent\<close>, \<open>dig_hole\<close>, \<open>play_with_object\<close>, \<open>learn_command\<close> and
  \<open>obey_command\<close> compute their rates and costs, and with them convert their
  integers, after their tests and before they write anything.
\<close>

definition difficulty_penalties :: "(str \<times> real) list" where
  "difficulty_penalties =
     [(str_easy, 0), (str_medium, 0.1), (str_hard, 0.2), (str_extreme, 0.3)]"

definition track_scent ::
  "'g prng \<Rightarrow> datetime \<Rightarrow> str \<Rightarrow> int \<Rightarrow> str \<Rightarrow> 'a canine_scheme \<times> 'g
     \<Rightarrow> (error + reply) \<times> 'a canine_scheme \<times> 'g" where
  "track_scent P now scent_type age_hours difficulty sg =
     (case sg of (s, g) \<Rightarrow>
        if \<not> is_alive s then (Inr (Error_reply Animal_is_dead), s, g)
        else if energy_level s < 20
        then (Inr (Insufficient_energy No_energy_to_track), s, g)
        else if \<not> quotient_fits_float (scent_tracking_ability s) 100 \<or> \<not> fits_float age_hours
        then (Inl OverflowError, s, g)
        else
          let base_success_rate = of_int (scent_tracking_ability s) / 100;
              age_penalty = min 0.5 (of_int age_hours * 0.02);
              difficulty_penalty = get_or (map_of difficulty_penalties difficulty) 0.1;
              success_rate = base_success_rate - age_penalty - difficulty_penalty;
              success_rate = max 0.1 success_rate;
              energy_cost = 15 + (of_int age_hours * 0.5)
                               + (get_or (map_of difficulty_penalties difficulty) 0.1 * 50);
              s1 = s\<lparr>energy_level := max 0 (energy_level s - energy_cost)\<rparr>;
              (u, g1) = next_random P g
          in if u \<le> success_rate
             then
               let (distance_tracked, g2) = uniform P 0.5 (pursuit_endurance_km s1 * 0.3) g1;
                   tracking_time = distance_tracked / 3;
                   s2 = s1\<lparr>happiness_level := min 100 (happiness_level s1 + 15)\<rparr>;
                   rec = AnimalRecord now Rt_tracking_success
                           (D_tracked scent_type distance_tracked);
                   s3 = s2\<lparr>tracking_records := tracking_records s2 @ [rec]\<rparr>
               in (Inr (Track_success scent_type (py_round 1 distance_tracked)
                          (py_round 1 tracking_time)
                          (if success_rate > 0.7 then Clear else Faint)),
                   s3, g2)
             else
               let s2 = s1\<lparr>happiness_level := max 0 (happiness_level s1 - 8)\<rparr>;
                   rec = AnimalRecord now Rt_tracking_failed (D_trail_lost scent_type);
                   s3 = s2\<lparr>tracking_records := tracking_records s2 @ [rec]\<rparr>
               in (Inr (Track_failed scent_type energy_cost), s3, g1))"

definition dig_hole ::
  "datetime \<Rightarrow> str \<Rightarrow> int \<Rightarrow> 'a canine_scheme \<Rightarrow> (error + reply) \<times> 'a canine_scheme" where
  "dig_hole now purpose depth_cm s =
     (if \<not> is_alive s then (Inr (Error_reply Animal_is_dead), s)
      else if energy_level s < 25 then (Inr (Insufficient_energy No_energy_to_dig), s)
      else if \<not> fits_float depth_cm then (Inl OverflowError, s)
      else
        let energy_cost = of_int depth_cm * 0.5;
            s1 = s\<lparr>energy_level := max 0 (energy_level s - energy_cost)\<rparr>;
            dig_spot = \<lparr>spot_location =
                          str_location_prefix @ decimal (length (digging_spots s1) + 1),
                        spot_purpose = purpose, spot_depth_cm = depth_cm,
                        spot_timestamp = now, spot_success = True\<rparr>;
            s2 = s1\<lparr>digging_spots := digging_spots s1 @ [dig_spot]\<rparr>;
            s3 = s2\<lparr>happiness_level := min 100 (happiness_level s2 + 10)\<rparr>;
            s4 = log_activity now Rt_digging (D_dug depth_cm purpose) s3
        in (Inr (Dig_success (spot_location dig_spot) depth_cm purpose energy_cost), s4))"

text \<open>\<open>if x\<close> on an optional string: neither \<open>None\<close> nor empty.\<close>

definition truthy :: "str option \<Rightarrow> bool" where
  "truthy v = (case v of None \<Rightarrow> False | Some x \<Rightarrow> x \<noteq> [])"

definition bury_item ::
  "datetime \<Rightarrow> str \<Rightarrow> str option \<Rightarrow> 'a canine_scheme
     \<Rightarrow> (error + reply) \<times> 'a canine_scheme" where
  "bury_item now item location s =
     (let dig = (\<lambda>s0. case dig_hole now str_store 25 s0 of
                         (Inr (Dig_success l d p e), s') \<Rightarrow> (Inr l, s')
                       | (dig_result, s') \<Rightarrow> (Inl dig_result, s'));
          (found, s1) =
            (if truthy location then (Inr (get_or location []), s)
             else if digging_spots s \<noteq> []
             then
               let available_spots =
                     filter (\<lambda>spot. spot_purpose spot \<in> set [str_hide_food, str_store])
                       (digging_spots s)
               in if available_spots \<noteq> []
                  then (Inr (spot_location (last available_spots)), s)
                  else dig s
             else dig s)
      in case found of
           Inl dig_result \<Rightarrow> (dig_result, s1)
         | Inr loc \<Rightarrow>
             let buried = \<lparr>bi_item = item, bi_location = loc, bi_burial_date = now,
                           bi_retrieval_date = None, bi_condition = Fresh\<rparr>;
                 s2 = s1\<lparr>buried_items := buried_items s1 @ [buried]\<rparr>;
                 s3 = log_activity now Rt_burying (D_buried loc item) s2
             in (Inr (Bury_success item loc (bi_burial_date buried)), s3))"

text \<open>
  \<open>retrieve_buried_item\<close> collects the items not yet retrieved that match, picks one
  with \<open>random.choice\<close> and updates that dictionary, which is an element of
  \<open>buried_items\<close>: the items are held here by their index in that list.
\<close>

definition is_target :: "str option \<Rightarrow> str option \<Rightarrow> buried_item \<Rightarrow> bool" where
  "is_target item location b =
     (bi_retrieval_date b = None \<and>
      (if truthy item \<and> Some (bi_item b) = item then True
       else if truthy location \<and> Some (bi_location b) = location then True
       else \<not> truthy item \<and> \<not> truthy location))"

definition retrieve_buried_item ::
  "'g prng \<Rightarrow> datetime \<Rightarrow> str option \<Rightarrow> str option \<Rightarrow> 'a canine_scheme \<times> 'g
     \<Rightarrow> (error + reply) \<times> 'a canine_scheme \<times> 'g" where
  "retrieve_buried_item P now item location sg =
     (case sg of (s, g) \<Rightarrow>
        if buried_items s = [] then (Inr (Not_found Nothing_buried), s, g)
        else
          let target_items =
                filter (\<lambda>i. is_target item location (buried_items s ! i))
                  [0..<length (buried_items s)]
          in if target_items = [] then (Inr (Not_found Buried_item_not_found), s, g)
             else
               let (k, g1) = next_randbelow P (length target_items) g
               in if \<not> k < length target_items then (Inl IndexError, s, g1)
                  else
                    let i = target_items ! k;
                        b1 = (buried_items s ! i)\<lparr>bi_retrieval_date := Some now\<rparr>;
                        burial_duration_days =
                          (now - bi_burial_date b1) div microseconds_per_day;
                        b2 = b1\<lparr>bi_condition :=
                                  (if burial_duration_days > 7 then Spoiled
                                   else if burial_duration_days > 3 then Fair
                                   else Good)\<rparr>;
                        s1 = s\<lparr>buried_items := (buried_items s)[i := b2]\<rparr>;
                        s2 = s1\<lparr>happiness_level := min 100 (happiness_level s1 + 12)\<rparr>;
                        s3 = log_activity now Rt_retrieving
                               (D_retrieved (bi_location b2) (bi_item b2)) s2
                    in (Inr (Retrieve_success (bi_item b2) (bi_location b2) (bi_condition b2)
                               burial_duration_days),
                        s3, g1))"

definition play_with_object ::
  "'g prng \<Rightarrow> datetime \<Rightarrow> str \<Rightarrow> int \<Rightarrow> 'a canine_scheme \<times> 'g
     \<Rightarrow> (error + reply) \<times> 'a canine_scheme \<times> 'g" where
  "play_with_object P now object_type duration_minutes sg =
     (case sg of (s, g) \<Rightarrow>
        if \<not> is_alive s then (Inr (Error_reply Animal_is_dead), s, g)
        else if energy_level s < 15 then (Inr (Insufficient_energy Too_tired_to_play), s, g)
        else if \<not> fits_float duration_minutes \<or> \<not> quotient_fits_float (playfulness s) 10
        then (Inl OverflowError, s, g)
        else
          let energy_cost = of_int duration_minutes * 0.8;
              happiness_gain = of_int duration_minutes * 1.2 + (of_int (playfulness s) / 10);
              s1 = s\<lparr>energy_level := max 0 (energy_level s - energy_cost)\<rparr>;
              s2 = s1\<lparr>happiness_level := min 100 (happiness_level s1 + happiness_gain)\<rparr>;
              (enjoyment, g1) = uniform P 0.7 1.0 g;
              session = \<lparr>play_object = object_type,
                         play_duration_minutes = duration_minutes,
                         play_timestamp = now, enjoyment_level = enjoyment,
                         energy_spent = energy_cost\<rparr>;
              s3 = s2\<lparr>play_sessions := play_sessions s2 @ [session]\<rparr>;
              s4 = log_activity now Rt_play (D_played object_type duration_minutes) s3
          in (Inr (Play_success object_type duration_minutes (py_round 1 happiness_gain)
                     (py_round 1 energy_cost)
                     (if enjoyment_level session > 0.8 then High else Moderate)),
              s4, g1))"

definition learn_command ::
  "'g prng \<Rightarrow> datetime \<Rightarrow> str \<Rightarrow> str \<Rightarrow> int \<Rightarrow> 'a canine_scheme \<times> 'g
     \<Rightarrow> (error + reply) \<times> 'a canine_scheme \<times> 'g" where
  "learn_command P now command trainer repetitions sg =
     (case sg of (s, g) \<Rightarrow>
        if command \<in> set (learned_commands s)
        then (Inr (Already_known (Already_learned command)), s, g)
        else if \<not> quotient_fits_float (trainability_score s) 100 \<or> \<not> fits_float repetitions
        then (Inl OverflowError, s, g)
        else
          let base_success_rate = of_int (trainability_score s) / 100;
              repetition_bonus = min 0.3 (of_int repetitions * 0.02);
              success_rate = base_success_rate + repetition_bonus;
              success_rate = (if age s > 8 then success_rate * 0.8
                              else if age s < 2 then success_rate * 1.2
                              else success_rate);
              success_rate = min 0.95 success_rate;
              (u, g1) = next_random P g
          in if u \<le> success_rate
             then
               let s1 = s\<lparr>learned_commands := learned_commands s @ [command]\<rparr>;
                   s2 = s1\<lparr>happiness_level := min 100 (happiness_level s1 + 8)\<rparr>;
                   rec = AnimalRecord now Rt_command_learned (D_learned command repetitions);
                   s3 = s2\<lparr>training_sessions := training_sessions s2 @ [rec]\<rparr>
               in (Inr (Learn_success command repetitions trainer), s3, g1)
             else
               let rec = AnimalRecord now Rt_training_attempt (D_needs_practice command);
                   s1 = s\<lparr>training_sessions := training_sessions s @ [rec]\<rparr>
               in (Inr (Learn_progress command repetitions), s1, g1))"

definition command_effects :: "(str \<times> (string \<times> int) list) list" where
  "command_effects =
     [(str_sit, [(''energy_change'', 2), (''discipline'', 1)]),
      (str_shake, [(''happiness_change'', 3), (''social_bond'', 2)]),
      (str_down, [(''energy_change'', 3), (''calm'', 1)]),
      (str_come, [(''exercise'', 5), (''loyalty_boost'', 1)]),
      (str_stop, [(''discipline'', 2), (''self_control'', 1)])]"

definition obey_command ::
  "'g prng \<Rightarrow> datetime \<Rightarrow> str \<Rightarrow> 'a canine_scheme \<times> 'g
     \<Rightarrow> (error + reply) \<times> 'a canine_scheme \<times> 'g" where
  "obey_command P now command sg =
     (case sg of (s, g) \<Rightarrow>
        if command \<notin> set (learned_commands s)
        then (Inr (Unknown_command (Command_not_known command)), s, g)
        else if \<not> quotient_fits_float (loyalty_level s) 100 then (Inl OverflowError, s, g)
        else
          let base_obedience_rate = of_int (loyalty_level s) / 100;
              energy_factor = energy_level s / 100;
              success_rate = base_obedience_rate * 0.7 + energy_factor * 0.3;
              (u, g1) = next_random P g
          in if u \<le> success_rate
             then
               let s1 = s\<lparr>happiness_level := min 100 (happiness_level s + 5)\<rparr>;
                   effects = get_or (map_of command_effects command) [];
                   s2 = log_activity now Rt_obeying (D_obeyed command) s1
               in (Inr (Obey_success command
                          (if success_rate > 0.8 then Excellent else Good_execution) effects),
                   s2, g1)
             else
               let s1 = log_activity now Rt_obeying (D_disobeyed command) s
               in (Inr (Obey_failed command
                          (if energy_level s1 > 50 then Distracted else Too_tired)),
                   s1, g1))"

text \<open>
  \<open>form_pack_with\<close> sorts the candidates with a key that reads \<open>x.dominance_level\<close>.
  No \<open>Canine\<close> has that attribute (it belongs to \<open>PackBehavior\<close>), so computing the
  first key raises \<open>AttributeError\<close>; the statements after the sort, which assign the
  roles and log, are never reached. Nothing has been written before the sort.
\<close>

definition form_pack_with ::
  "'b canine_scheme list \<Rightarrow> 'a canine_scheme \<Rightarrow> (error + reply) \<times> 'a canine_scheme" where
  "form_pack_with other_canines s =
     (if \<not> pack_instinct s then (Inr (Error_reply Lacks_pack_instinct), s)
      else if length other_canines < 1
      then (Inr (Insufficient_members Needs_one_other_member), s)
      else
        let eligible_members = filter (\<lambda>c. pack_instinct c \<and> is_alive c) other_canines
        in if length eligible_members < 1
           then (Inr (No_eligible_members No_suitable_members), s)
           else (Inl AttributeError, s))"

definition prey_energy_gains :: "(str \<times> real) list" where
  "prey_energy_gains = [(str_small, 30), (str_mid, 50), (str_large, 80)]"

definition role_multipliers :: "(str \<times> real) list" where
  "role_multipliers = [(str_alpha, 1.3), (str_beta, 1.1), (str_member, 1.0), (str_pup, 0.8)]"

definition hunt_as_pack ::
  "'g prng \<Rightarrow> datetime \<Rightarrow> str \<Rightarrow> str \<Rightarrow> 'a canine_scheme \<times> 'g
     \<Rightarrow> (error + reply) \<times> 'a canine_scheme \<times> 'g" where
  "hunt_as_pack P now prey_type prey_size sg =
     (case sg of (s, g) \<Rightarrow>
        if pack_members (pack_behavior s) = [] then hunt_prey P now prey_type 0.4 (s, g)
        else
          let pack_size = length (pack_members (pack_behavior s));
              (hunt_result, pb, g1) = coordinate_hunt P prey_size pack_size (pack_behavior s, g);
              s1 = s\<lparr>pack_behavior := pb\<rparr>
          in if status_of hunt_result = St_success
             then
               let base_energy_gain = get_or (map_of prey_energy_gains prey_size) 50;
                   individual_share = base_energy_gain / of_nat pack_size;
                   role_multiplier =
                     get_or (map_of role_multipliers (pack_role (pack_behavior s1))) 1.0;
                   energy_gain = individual_share * role_multiplier;
                   s2 = s1\<lparr>energy_level := min 100 (energy_level s1 + energy_gain)\<rparr>;
                   s3 = s2\<lparr>happiness_level := min 100 (happiness_level s2 + 20)\<rparr>;
                   s4 = s3\<lparr>is_hungry := False\<rparr>;
                   s5 = log_activity now Rt_pack_hunting (D_pack_caught prey_type prey_size) s4
               in (Inr (Pack_hunt_success prey_size (py_round 1 energy_gain)
                          (pack_role (pack_behavior s5)) role_multiplier),
                   s5, g1)
             else
               let s2 = s1\<lparr>energy_level := max 0 (energy_level s1 - 20)\<rparr>;
                   s3 = s2\<lparr>happiness_level := max 0 (happiness_level s2 - 10)\<rparr>
               in (Inr hunt_result, s3, g1))"

definition Canine_get_life_expectancy ::
  "'g prng \<Rightarrow> 'a canine_scheme \<Rightarrow> 'g \<Rightarrow> int \<times> 'g" where
  "Canine_get_life_expectancy P s g =
     (if weight s < 10 then randint P 12 16 g
      else if weight s < 30 then randint P 10 14 g
      else randint P 8 12 g)"

section \<open>Sequences of calls\<close>

text \<open>
  A caller holds one \<open>Canine\<close> and the generator and makes one call after the other; a
  call that raises leaves the object as the method left it, and the caller goes on.
  \<open>Inr None\<close> is a call that returned \<open>None\<close>, \<open>Inr (Some d)\<close> one that returned the
  dictionary \<open>d\<close>.
\<close>

datatype call =
    Feed str real                         \<comment> \<open>food_type, amount\<close>
  | Exercise str int                      \<comment> \<open>exercise_type, duration\<close>
  | Sleep int                             \<comment> \<open>duration\<close>
  | Age_up int                            \<comment> \<open>years\<close>
  | Regulate_body_temperature real        \<comment> \<open>ambient_temp\<close>
  | Groom_fur int                         \<comment> \<open>duration_minutes\<close>
  | Shed_fur str                          \<comment> \<open>season\<close>
  | Nurse_offspring int                   \<comment> \<open>offspring_count\<close>
  | Establish_territory real              \<comment> \<open>territory_size_sqm\<close>
  | Hunt_prey str real                    \<comment> \<open>prey_type, success_rate\<close>
  | Migrate str real                      \<comment> \<open>destination, distance_km\<close>
  | Prepare_for_hibernation
  | Track_scent str int str               \<comment> \<open>scent_type, age_hours, difficulty\<close>
  | Dig_hole str int                      \<comment> \<open>purpose, depth_cm\<close>
  | Bury_item str "str option"            \<comment> \<open>item, location\<close>
  | Retrieve_buried_item "str option" "str option"   \<comment> \<open>item, location\<close>
  | Play_with_object str int              \<comment> \<open>object_type, duration_minutes\<close>
  | Learn_command str str int             \<comment> \<open>command, trainer, repetitions\<close>
  | Obey_command str                      \<comment> \<open>command\<close>
  | Form_pack_with "canine list"          \<comment> \<open>other_canines\<close>
  | Hunt_as_pack str str                  \<comment> \<open>prey_type, prey_size\<close>

type_synonym outcome = "error + reply option"

definition returned_none :: "(error + unit) \<Rightarrow> outcome" where
  "returned_none r = map_sum id (\<lambda>u. None) r"

definition returned_dict :: "(error + reply) \<Rightarrow> outcome" where
  "returned_dict r = map_sum id Some r"

fun exec :: "'g prng \<Rightarrow> datetime \<Rightarrow> call \<Rightarrow> canine \<times> 'g \<Rightarrow> outcome \<times> canine \<times> 'g" where
  "exec P now (Feed food_type amount) (s, g) =
     (case feed now food_type amount s of (r, s') \<Rightarrow> (returned_none r, s', g))"
| "exec P now (Exercise exercise_type duration) (s, g) =
     (case exercise now exercise_type duration s of (r, s') \<Rightarrow> (returned_none r, s', g))"
| "exec P now (Sleep duration) (s, g) =
     (case sleep now duration s of (r, s') \<Rightarrow> (returned_none r, s', g))"
| "exec P now (Age_up years) (s, g) =
     (case age_up (Canine_get_life_expectancy P) now years (s, g) of
        (r, s', g') \<Rightarrow> (returned_none r, s', g'))"
| "exec P now (Regulate_body_temperature ambient_temp) (s, g) =
     (case regulate_body_temperature now ambient_temp s of
        (r, s') \<Rightarrow> (returned_dict r, s', g))"
| "exec P now (Groom_fur duration_minutes) (s, g) =
     (case groom_fur now duration_minutes s of (r, s') \<Rightarrow> (returned_none r, s', g))"
| "exec P now (Shed_fur season) (s, g) =
     (case shed_fur P now season (s, g) of (r, s', g') \<Rightarrow> (returned_none r, s', g'))"
| "exec P now (Nurse_offspring offspring_count) (s, g) =
     (case nurse_offspring now offspring_count s of (r, s') \<Rightarrow> (returned_dict r, s', g))"
| "exec P now (Establish_territory territory_size_sqm) (s, g) =
     (case establish_territory now territory_size_sqm s of
        (r, s') \<Rightarrow> (returned_dict r, s', g))"
| "exec P now (Hunt_prey prey_type success_rate) (s, g) =
     (case hunt_prey P now prey_type success_rate (s, g) of
        (r, s', g') \<Rightarrow> (returned_dict r, s', g'))"
| "exec P now (Migrate destination distance_km) (s, g) =
     (case migrate now destination distance_km s of (r, s') \<Rightarrow> (returned_dict r, s', g))"
| "exec P now Prepare_for_hibernation (s, g) =
     (case prepare_for_hibernation now s of (r, s') \<Rightarrow> (returned_dict r, s', g))"
| "exec P now (Track_scent scent_type age_hours difficulty) (s, g) =
     (case track_scent P now scent_type age_hours difficulty (s, g) of
        (r, s', g') \<Rightarrow> (returned_dict r, s', g'))"
| "exec P now (Dig_hole purpose depth_cm) (s, g) =
     (case dig_hole now purpose depth_cm s of (r, s') \<Rightarrow> (returned_dict r, s', g))"
| "exec P now (Bury_item item location) (s, g) =
     (case bury_item now item location s of (r, s') \<Rightarrow> (returned_dict r, s', g))"
| "exec P now (Retrieve_buried_item item location) (s, g) =
     (case retrieve_buried_item P now item location (s, g) of
        (r, s', g') \<Rightarrow> (returned_dict r, s', g'))"
| "exec P now (Play_with_object object_type duration_minutes) (s, g) =
     (case play_with_object P now object_type duration_minutes (s, g) of
        (r, s', g') \<Rightarrow> (returned_dict r, s', g'))"
| "exec P now (Learn_command command trainer repetitions) (s, g) =
     (case learn_command P now command trainer repetitions (s, g) of
        (r, s', g') \<Rightarrow> (returned_dict r, s', g'))"
| "exec P now (Obey_command command) (s, g) =
     (case obey_command P now command (s, g) of (r, s', g') \<Rightarrow> (returned_dict r, s', g'))"
| "exec P now (Form_pack_with other_canines) (s, g) =
     (case form_pack_with other_canines s of (r, s') \<Rightarrow> (returned_dict r, s', g))"
| "exec P now (Hunt_as_pack prey_type prey_size) (s, g) =
     (case hunt_as_pack P now prey_type prey_size (s, g) of
        (r, s', g') \<Rightarrow> (returned_dict r, s', g'))"

text \<open>\<open>run\<close> lists, for each call in turn, its outcome and the object and generator after it.\<close>

fun run ::
  "'g prng \<Rightarrow> (datetime \<times> call) list \<Rightarrow> canine \<times> 'g \<Rightarrow> (outcome \<times> canine \<times> 'g) list" where
  "run P [] sg = []"
| "run P ((now, c) # cs) sg = (let r = exec P now c sg in r # run P cs (snd r))"

text \<open>The same for calls of \<open>feed\<close> alone, on an object of any of the classes.\<close>

fun feed_all ::
  "(datetime \<times> str \<times> real) list \<Rightarrow> 'a animal_scheme \<Rightarrow> 'a animal_scheme list" where
  "feed_all [] s = []"
| "feed_all ((now, food_type, amount) # fs) s =
     (let s' = snd (feed now food_type amount s) in s' # feed_all fs s')"

text \<open>The levels lie between 0 and 100.\<close>

definition levels_in_range :: "'a animal_scheme \<Rightarrow> bool" where
  "levels_in_range s =
     (0 \<le> energy_level s \<and> energy_level s \<le> 100 \<and>
      0 \<le> happiness_level s \<and> happiness_level s \<le> 100)"

text \<open>
  The calls of \<open>feed\<close>, \<open>exercise\<close>, \<open>sleep\<close>, \<open>age_up\<close>, \<open>hunt_prey\<close>, \<open>track_scent\<close>,
  \<open>dig_hole\<close>, \<open>play_with_object\<close> and \<open>learn_command\<close> whose integer argument
  measuring a duration, a depth or an age is not negative.
\<close>

fun nonneg_stat_call :: "call \<Rightarrow> bool" where
  "nonneg_stat_call (Feed food_type amount) = True"
| "nonneg_stat_call (Exercise exercise_type duration) = True"
| "nonneg_stat_call (Sleep duration) = (0 \<le> duration)"
| "nonneg_stat_call (Age_up years) = True"
| "nonneg_stat_call (Hunt_prey prey_type success_rate) = True"
| "nonneg_stat_call (Track_scent scent_type age_hours difficulty) = (0 \<le> age_hours)"
| "nonneg_stat_call (Dig_hole purpose depth_cm) = (0 \<le> depth_cm)"
| "nonneg_stat_call (Play_with_object object_type duration_minutes) = (0 \<le> duration_minutes)"
| "nonneg_stat_call (Learn_command command trainer repetitions) = True"
| "nonneg_stat_call c = False"

section \<open>Objects to evaluate the model on\<close>

text \<open>
  A generator whose state counts the draws made, every float draw being a half and
  every integer draw 0, and the \<open>Canine\<close> that the constructor builds with it, with
  the state of that object at the end of \<open>Animal.__init__\<close>.
\<close>

definition half_prng :: "nat prng" where
  "half_prng = \<lparr>next_random = (\<lambda>g. (1 / 2, Suc g)), next_randbelow = (\<lambda>n g. (0, Suc g))\<rparr>"

definition empty_registry :: registry where
  "empty_registry =
     \<lparr>total_animals = 0, species_registry = Map.empty, mammal_count = 0, canine_count = 0\<rparr>"

definition t0 :: datetime where
  "t0 = 63900000000000000"

definition rex_animal :: animal where
  "rex_animal =
     \<lparr>name = ascii ''Rex'', species = ascii ''dog'', age = 3, weight = 20,
      owner = ascii ''Ann'', gender = ascii ''male'',
      animal_id = (ascii ''dog'', 63900000000, 0),
      is_alive = True, is_hungry = False, is_sleeping = False,
      energy_level = 100, happiness_level = 80,
      birth_date = 63805392000000000, registration_date = t0,
      last_fed = None, last_exercise = None,
      health = \<lparr>health_status = Status_good, last_checkup = None, medical_records = []\<rparr>,
      activity_log = [AnimalRecord t0 Rt_created (D_registered (ascii ''Rex''))],
      favorite_activities = []\<rparr>"

definition rex :: canine where
  "rex =
     \<lparr>name = ascii ''Rex'', species = ascii ''dog'', age = 3, weight = 20,
      owner = ascii ''Ann'', gender = ascii ''male'',
      animal_id = (ascii ''dog'', 63900000000, 0),
      is_alive = True, is_hungry = False, is_sleeping = False,
      energy_level = 100, happiness_level = 80,
      birth_date = 63805392000000000, registration_date = t0,
      last_fed = None, last_exercise = None,
      health = \<lparr>health_status = Status_good, last_checkup = None, medical_records = []\<rparr>,
      activity_log =
        [AnimalRecord t0 Rt_created (D_registered (ascii ''Rex'')),
         AnimalRecord t0 Rt_mammal_created
           (D_mammal_registered (ascii ''Rex'') (ascii ''brown'')),
         AnimalRecord t0 Rt_canine_created (D_canine_registered (ascii ''Rex'') 200)],
      favorite_activities = [],
      fur_color = ascii ''brown'', fur_type = ascii ''double'', body_temperature = 75 / 2,
      fur_condition = None, social_behavior = str_gregarious, territoriality = str_medium,
      migration_pattern = str_none,
      nutrition = \<lparr>is_lactating = False, lactation_start = None, milk_production_rate = 0\<rparr>,
      seasonal_coat_change = False, hibernation_capable = False, winter_weight_gain = 0,
      max_speed_kmh = 0, temperature_tolerance = (- 10, 35),
      bite_force_psi = 200, pack_instinct = True, loyalty_level = 70, playfulness = 40,
      pack_behavior =
        \<lparr>pack_members = [], pack_role = str_member, hunting_contributions = 0\<rparr>,
      digging_spots = [], buried_items = [], tracking_records = [], play_sessions = [],
      trainability_score = 60, learned_commands = [], training_sessions = [],
      scent_tracking_ability = 80, pursuit_endurance_km = 15\<rparr>"

text \<open>The same object with \<open>is_alive\<close> cleared, and with little energy left.\<close>

definition dead_rex :: canine where
  "dead_rex = rex\<lparr>is_alive := False\<rparr>"

definition tired_rex :: canine where
  "tired_rex = rex\<lparr>energy_level := 10\<rparr>"

text \<open>
  A sequence of calls of the methods that change the levels, with arguments that are
  not negative, and a sequence of calls of the other methods.
\<close>

definition sample_calls :: "(datetime \<times> call) list" where
  "sample_calls =
     [(t0 + 60000000, Play_with_object (ascii ''ball'') 15),
      (t0 + 120000000, Dig_hole str_store 30),
      (t0 + 180000000, Track_scent (ascii ''fox'') 4 str_hard),
      (t0 + 240000000, Hunt_prey (ascii ''rabbit'') 0.6),
      (t0 + 300000000, Sleep 8),
      (t0 + 360000000, Feed (ascii ''kibble'') 1),
      (t0 + 420000000, Exercise (ascii ''walk'') 30),
      (t0 + 480000000, Learn_command str_sit (ascii ''Ann'') 10),
      (t0 + 540000000, Age_up 1)]"

definition sample_other_calls :: "(datetime \<times> call) list" where
  "sample_other_calls =
     [(t0 + 600000000, Regulate_body_temperature 40),
      (t0 + 660000000, Groom_fur 15),
      (t0 + 720000000, Shed_fur str_winter),
      (t0 + 780000000, Nurse_offspring 1),
      (t0 + 840000000, Establish_territory 500),
      (t0 + 900000000, Migrate (ascii ''south'') 10),
      (t0 + 960000000, Prepare_for_hibernation),
      (t0 + 1020000000, Bury_item (ascii ''bone'') None),
      (t0 + 1080000000, Retrieve_buried_item None None),
      (t0 + 1140000000, Obey_command str_sit),
      (t0 + 1200000000, Form_pack_with [dead_rex, tired_rex]),
      (t0 + 1260000000, Hunt_as_pack (ascii ''deer'') str_mid)]"

definition sample_feeds :: "(datetime \<times> str \<times> real) list" where
  "sample_feeds =
     [(t0 + 60000000, ascii ''kibble'', 1), (t0 + 120000000, ascii ''bone'', 2),
      (t0 + 180000000, ascii ''kibble'', 1 / 2)]"

text \<open>Two records that differ only in their time of creation are the same up to time.\<close>

definition forget_time :: "animal_record \<Rightarrow> record_type \<times> description" where
  "forget_time r = (record_type r, description r)"

section \<open>Evaluation of the sample objects\<close>

declare decimal.simps [simp del]

lemmas init_defs =
  Canine_init_def Mammal_init_def Animal_init_def Let_def uniform_def randint_def
  half_prng_def empty_registry_def log_activity_def AnimalRecord_def generate_id_def
  generate_animal_id_def animal.defs mammal.defs canine.defs datetime_max_def
  timedelta_max_days_def microseconds_per_day_def AnimalHealth_init_def
  MammalNutrition_init_def PackBehavior_init_def body_temperature_range_def t0_def ascii_def

lemmas stat_call_defs =
  feed_def exercise_def sleep_def age_up_def hunt_prey_def track_scent_def dig_hole_def
  play_with_object_def learn_command_def log_activity_def Let_def

lemma rex_animal_constructed:
  "Animal_init t0 (ascii ''Rex'') (ascii ''dog'') 3 20 (ascii ''Ann'') (ascii ''male'')
     empty_registry =
     (Inr rex_animal,
      empty_registry\<lparr>total_animals := 1, species_registry := [ascii ''dog'' \<mapsto> 1]\<rparr>)"
  by (simp add: init_defs rex_animal_def)

lemma rex_constructed:
  "Canine_init half_prng t0 (ascii ''Rex'') (ascii ''dog'') 3 20 (ascii ''Ann'')
     (ascii ''male'') (ascii ''brown'') (ascii ''double'') 200 True (empty_registry, 0) =
   (Inr rex,
    \<lparr>total_animals = 1, species_registry = [ascii ''dog'' \<mapsto> 1], mammal_count = 1,
     canine_count = 1\<rparr>,
    12)"
  by (simp add: init_defs rex_def)

text \<open>
  What the constructors leave: a living animal with \<open>energy_level\<close> 100 and
  \<open>happiness_level\<close> 80, and for a \<open>Canine\<close> a \<open>playfulness\<close> of at least 40.
\<close>

lemma Animal_init_levels:
  "fst (Animal_init now nm sp ag wt ow gd reg) = Inr a
     \<Longrightarrow> is_alive a \<and> energy_level a = 100 \<and> happiness_level a = 80"
  by (auto simp: Animal_init_def Let_def log_activity_def split: if_splits)

lemma Mammal_init_levels:
  "fst (Mammal_init P now nm sp ag wt ow gd fc ft rg) = Inr m
     \<Longrightarrow> is_alive m \<and> energy_level m = 100 \<and> happiness_level m = 80"
  using Animal_init_levels[of now nm sp ag wt ow gd "fst rg"]
  by (auto simp: Mammal_init_def Let_def log_activity_def animal.defs mammal.defs
        split: prod.splits sum.splits)

lemma Canine_init_levels:
  "fst (Canine_init P now nm sp ag wt ow gd fc ft bite pack rg) = Inr c
     \<Longrightarrow> is_alive c \<and> energy_level c = 100 \<and> happiness_level c = 80 \<and> 40 \<le> playfulness c"
  using Mammal_init_levels[of P now nm sp ag wt ow gd fc ft rg]
  by (auto simp: Canine_init_def Let_def log_activity_def randint_def mammal.defs canine.defs
        split: prod.splits sum.splits if_splits)

lemma half_prng_unit_draws: "unit_draws half_prng"
  by (simp add: unit_draws_def half_prng_def)

section \<open>The levels under each call\<close>

lemma unit_drawsD: "unit_draws P \<Longrightarrow> next_random P g = (u, g') \<Longrightarrow> 0 \<le> u \<and> u < 1"
  unfolding unit_draws_def by (metis fst_conv)

lemma feed_levels: "levels_in_range s \<Longrightarrow> levels_in_range (snd (feed now f a s))"
  by (simp add: feed_def levels_in_range_def log_activity_def Let_def)

lemma exercise_levels: "levels_in_range s \<Longrightarrow> levels_in_range (snd (exercise now e d s))"
  by (simp add: exercise_def levels_in_range_def log_activity_def Let_def)

lemma sleep_levels:
  "0 \<le> d \<Longrightarrow> levels_in_range s \<Longrightarrow> levels_in_range (snd (sleep now d s))"
  by (simp add: sleep_def levels_in_range_def log_activity_def Let_def)

lemma age_up_levels:
  "levels_in_range s \<Longrightarrow> levels_in_range (fst (snd (age_up life now y (s, g))))"
  by (simp add: age_up_def levels_in_range_def log_activity_def Let_def split: prod.splits)

lemma hunt_prey_levels:
  assumes "unit_draws P" "levels_in_range s"
  shows "levels_in_range (fst (snd (hunt_prey P now prey rate (s, g))))"
proof -
  obtain u g1 where d1: "next_random P g = (u, g1)" by (cases "next_random P g")
  obtain v g2 where d2: "next_random P g1 = (v, g2)" by (cases "next_random P g1")
  have "0 \<le> v" using unit_drawsD[OF assms(1) d2] by simp
  then show ?thesis using assms(2) d1 d2
    by (simp add: hunt_prey_def levels_in_range_def log_activity_def Let_def uniform_def)
qed

lemma penalty_nonneg: "0 \<le> get_or (map_of difficulty_penalties difficulty) 0.1"
  by (simp add: difficulty_penalties_def get_or_def)

lemma track_scent_levels:
  assumes "0 \<le> h" "levels_in_range s"
  shows "levels_in_range (fst (snd (track_scent P now sc h difficulty (s, g))))"
proof -
  have "0 \<le> 15 + (of_int h * 0.5) + (get_or (map_of difficulty_penalties difficulty) 0.1 * 50)"
    using assms(1) penalty_nonneg[of difficulty] by simp
  then show ?thesis using assms(2)
    by (simp add: track_scent_def levels_in_range_def Let_def split: prod.splits)
qed

lemma dig_hole_levels:
  "0 \<le> d \<Longrightarrow> levels_in_range s \<Longrightarrow> levels_in_range (snd (dig_hole now p d s))"
  by (simp add: dig_hole_def levels_in_range_def log_activity_def Let_def)

lemma play_levels:
  "0 \<le> d \<Longrightarrow> 0 \<le> playfulness s \<Longrightarrow> levels_in_range s
     \<Longrightarrow> levels_in_range (fst (snd (play_with_object P now ob d (s, g))))"
  by (simp add: play_with_object_def levels_in_range_def log_activity_def Let_def
        split: prod.splits)

lemma learn_levels:
  "levels_in_range s \<Longrightarrow> levels_in_range (fst (snd (learn_command P now c t r (s, g))))"
  by (simp add: learn_command_def levels_in_range_def Let_def split: prod.splits)

lemma exec_playfulness:
  "nonneg_stat_call c \<Longrightarrow> playfulness (fst (snd (exec P now c (s, g)))) = playfulness s"
  by (cases c) (simp_all add: stat_call_defs split: prod.splits)

lemma exec_levels:
  assumes "unit_draws P" "nonneg_stat_call c" "0 \<le> playfulness s" "levels_in_range s"
  shows "levels_in_range (fst (snd (exec P now c (s, g))))"
  using assms
  by (cases c)
     (simp_all add: case_prod_beta feed_levels exercise_levels sleep_levels age_up_levels
        hunt_prey_levels track_scent_levels dig_hole_levels play_levels learn_levels)

section \<open>The log of activities under each call\<close>

lemma log_activity_prefix: "prefix (activity_log s) (activity_log (log_activity now rt d s))"
  by (simp add: log_activity_def)

lemma feed_log: "prefix (activity_log s) (activity_log (snd (feed now f a s)))"
  by (simp add: feed_def log_activity_def Let_def)

lemma exercise_log: "prefix (activity_log s) (activity_log (snd (exercise now e d s)))"
  by (simp add: exercise_def log_activity_def Let_def)

lemma sleep_log: "prefix (activity_log s) (activity_log (snd (sleep now d s)))"
  by (simp add: sleep_def log_activity_def Let_def)

lemma age_up_log:
  "prefix (activity_log s) (activity_log (fst (snd (age_up life now y (s, g)))))"
  by (simp add: age_up_def log_activity_def Let_def split: prod.splits)

lemma regulate_log:
  "prefix (activity_log s) (activity_log (snd (regulate_body_temperature now t s)))"
  by (simp add: regulate_body_temperature_def log_activity_def Let_def)

lemma groom_log: "prefix (activity_log s) (activity_log (snd (groom_fur now d s)))"
  by (simp add: groom_fur_def log_activity_def Let_def split: option.splits)

lemma shed_log:
  "prefix (activity_log s) (activity_log (fst (snd (shed_fur P now season (s, g)))))"
  by (simp add: shed_fur_def log_activity_def Let_def split: prod.splits)

lemma nurse_log: "prefix (activity_log s) (activity_log (snd (nurse_offspring now n s)))"
  by (simp add: nurse_offspring_def log_activity_def Let_def split: sum.splits prod.splits)

lemma territory_log:
  "prefix (activity_log s) (activity_log (snd (establish_territory now t s)))"
  by (simp add: establish_territory_def log_activity_def Let_def)

lemma hunt_prey_log:
  "prefix (activity_log s) (activity_log (fst (snd (hunt_prey P now prey rate (s, g)))))"
  by (simp add: hunt_prey_def log_activity_def Let_def split: prod.splits)

lemma migrate_log: "prefix (activity_log s) (activity_log (snd (migrate now d k s)))"
  by (simp add: migrate_def log_activity_def Let_def)

lemma hibernation_log:
  "prefix (activity_log s) (activity_log (snd (prepare_for_hibernation now s)))"
  by (simp add: prepare_for_hibernation_def log_activity_def Let_def)

lemma track_scent_log:
  "prefix (activity_log s) (activity_log (fst (snd (track_scent P now sc h d (s, g)))))"
  by (simp add: track_scent_def Let_def split: prod.splits)

lemma dig_hole_log: "prefix (activity_log s) (activity_log (snd (dig_hole now p d s)))"
  by (simp add: dig_hole_def log_activity_def Let_def)

lemma bury_item_log: "prefix (activity_log s) (activity_log (snd (bury_item now i l s)))"
proof -
  obtain r s' where d: "dig_hole now str_store 25 s = (r, s')"
    by (cases "dig_hole now str_store 25 s")
  have p: "prefix (activity_log s) (activity_log s')"
    using dig_hole_log[of s now str_store 25] d by simp
  have q: "prefix (activity_log s) (activity_log s' @ [x])" for x
    using p by (simp add: prefix_def) (metis append.assoc)
  show ?thesis
    using d p q
    by (simp add: bury_item_def log_activity_def Let_def
          split: prod.splits sum.splits reply.splits)
qed

lemma retrieve_log:
  "prefix (activity_log s)
     (activity_log (fst (snd (retrieve_buried_item P now i l (s, g)))))"
  by (simp add: retrieve_buried_item_def log_activity_def Let_def split: prod.splits)

lemma play_log:
  "prefix (activity_log s)
     (activity_log (fst (snd (play_with_object P now ob d (s, g)))))"
  by (simp add: play_with_object_def log_activity_def Let_def split: prod.splits)

lemma learn_log:
  "prefix (activity_log s) (activity_log (fst (snd (learn_command P now c t r (s, g)))))"
  by (simp add: learn_command_def Let_def split: prod.splits)

lemma obey_log:
  "prefix (activity_log s) (activity_log (fst (snd (obey_command P now c (s, g)))))"
  by (simp add: obey_command_def log_activity_def Let_def split: prod.splits)

lemma form_pack_log: "prefix (activity_log s) (activity_log (snd (form_pack_with others s)))"
  by (simp add: form_pack_with_def Let_def)

lemma hunt_as_pack_log:
  "prefix (activity_log s)
     (activity_log (fst (snd (hunt_as_pack P now prey sz (s, g)))))"
proof (cases "pack_members (pack_behavior s) = []")
  case True
  then show ?thesis using hunt_prey_log[of s P now prey "0.4" g]
    by (simp add: hunt_as_pack_def)
next
  case False
  then show ?thesis
    by (simp add: hunt_as_pack_def log_activity_def Let_def split: prod.splits)
qed

lemma exec_log_prefix:
  "prefix (activity_log s) (activity_log (fst (snd (exec P now c (s, g)))))"
  by (cases c)
     (simp_all add: case_prod_beta feed_log exercise_log sleep_log age_up_log regulate_log
        groom_log shed_log nurse_log territory_log hunt_prey_log migrate_log hibernation_log
        track_scent_log dig_hole_log bury_item_log retrieve_log play_log learn_log obey_log
        form_pack_log hunt_as_pack_log)

text \<open>
  C1. As stated, for calls with any argument values, the claim fails: \<open>sleep(-100)\<close> on
  a freshly built \<open>Canine\<close> leaves \<open>energy_level\<close> at \<open>min(100, 100 - 500) = -400\<close>.
\<close>

theorem sleep_negative_duration_leaves_range:
  "energy_level (fst (snd (exec half_prng (t0 + 60000000) (Sleep (- 100)) (rex, 12)))) = - 400
   \<and> \<not> levels_in_range (fst (snd (exec half_prng (t0 + 60000000) (Sleep (- 100)) (rex, 12))))"
  by (simp add: sleep_def levels_in_range_def log_activity_def Let_def rex_def)

text \<open>
  C1, amended. Take a \<open>Canine\<close> whose \<open>energy_level\<close> and \<open>happiness_level\<close> lie in
  [0, 100] and whose \<open>playfulness\<close> is not negative (as the constructor leaves them), a
  generator whose \<open>random()\<close> lies in [0, 1), and any sequence of calls of \<open>feed\<close>,
  \<open>exercise\<close>, \<open>sleep\<close>, \<open>age_up\<close>, \<open>hunt_prey\<close>, \<open>track_scent\<close>, \<open>dig_hole\<close>,
  \<open>play_with_object\<close> and \<open>learn_command\<close> in which the \<open>duration\<close> of \<open>sleep\<close>, the
  \<open>age_hours\<close> of \<open>track_scent\<close>, the \<open>depth_cm\<close> of \<open>dig_hole\<close> and the
  \<open>duration_minutes\<close> of \<open>play_with_object\<close> are not negative. Then after each call both
  levels lie in [0, 100].
\<close>

theorem levels_stay_in_range:
  assumes "unit_draws P"
    and "levels_in_range s" and "0 \<le> playfulness s"
    and "\<forall>(now, c) \<in> set cs. nonneg_stat_call c"
  shows "\<forall>(r, s', g') \<in> set (run P cs (s, g)). levels_in_range s'"
  using assms(2-4)
proof (induction cs arbitrary: s g)
  case Nil
  then show ?case by simp
next
  case (Cons x cs)
  obtain now c where x: "x = (now, c)" by (cases x)
  obtain r s1 g1 where e: "exec P now c (s, g) = (r, s1, g1)"
    by (cases "exec P now c (s, g)")
  have c: "nonneg_stat_call c" using Cons.prems(3) x by simp
  have l1: "levels_in_range s1"
    using exec_levels[OF assms(1) c Cons.prems(2) Cons.prems(1), of now g] e by simp
  have p1: "0 \<le> playfulness s1"
    using exec_playfulness[OF c, of P now s g] e Cons.prems(2) by simp
  have rest: "\<forall>(now, c) \<in> set cs. nonneg_stat_call c" using Cons.prems(3) by simp
  show ?case using Cons.IH[OF l1 p1 rest, of g1] l1 x e by (simp add: Let_def)
qed

theorem levels_stay_in_range_witness:
  "unit_draws half_prng \<and> levels_in_range rex \<and> 0 \<le> playfulness rex
   \<and> list_all (\<lambda>(now, c). nonneg_stat_call c) sample_calls
   \<and> run half_prng sample_calls (rex, 12) \<noteq> []
   \<and> list_all (\<lambda>(r, s', g'). levels_in_range s') (run half_prng sample_calls (rex, 12))"
proof -
  have ne: "run half_prng sample_calls (rex, 12) \<noteq> []"
    by (simp add: sample_calls_def Let_def)
  have h1: "levels_in_range rex" by (simp add: levels_in_range_def rex_def)
  have h2: "0 \<le> playfulness rex" by (simp add: rex_def)
  have h3: "\<forall>(now, c) \<in> set sample_calls. nonneg_stat_call c" by (simp add: sample_calls_def)
  show ?thesis
    using levels_stay_in_range[OF half_prng_unit_draws h1 h2 h3, of 12]
      half_prng_unit_draws h1 h2 h3 ne by (simp add: list_all_iff)
qed

text \<open>
  C2. \<open>hunt_prey\<close> does not test \<open>is_alive\<close>, unlike \<open>feed\<close>, \<open>exercise\<close>,
  \<open>track_scent\<close>, \<open>dig_hole\<close> and \<open>play_with_object\<close>. On the dead \<open>dead_rex\<close>, with
  the default \<open>success_rate\<close> of 0.6, the hunt takes place: the call returns the
  dictionary of a success, raises \<open>happiness_level\<close> from 80 to 100 and logs the catch.
\<close>

theorem dead_entity_still_hunts:
  "\<not> is_alive dead_rex \<and>
   hunt_prey half_prng (t0 + 60000000) (ascii ''rabbit'') 0.6 (dead_rex, 12) =
     (Inr (Hunt_success (ascii ''rabbit'') 50 25),
      dead_rex\<lparr>happiness_level := 100,
               activity_log := activity_log dead_rex
                 @ [AnimalRecord (t0 + 60000000) Rt_hunting (D_caught (ascii ''rabbit''))]\<rparr>,
      14)"
  by (simp add: hunt_prey_def uniform_def half_prng_def log_activity_def Let_def
        dead_rex_def rex_def py_round_def round_half_even_def)

text \<open>
  C3. As stated the claim fails for \<open>feed\<close> (and \<open>exercise\<close>): on a dead animal
  \<open>feed\<close> raises \<open>ValueError\<close> instead of returning a value.
\<close>

theorem feed_dead_raises:
  "fst (feed (t0 + 60000000) (ascii ''kibble'') 1 dead_rex) =
     Inl (ValueError (Dead_cannot_feed (ascii ''Rex'')))"
  by (simp add: feed_def dead_rex_def rex_def)

text \<open>
  C3, amended. \<open>hunt_prey\<close> never raises: with \<open>energy_level\<close> below 30 it returns
  the dictionary with status \<open>'insufficient_energy'\<close>, otherwise that of a success or
  of a failure. \<open>learn_command\<close> knows no failure for a dead animal or for low energy:
  for a command already learned it returns the dictionary with status
  \<open>'already_known'\<close>; otherwise it raises \<open>OverflowError\<close> when
  \<open>trainability_score / 100\<close> or \<open>repetitions\<close> is too large for a float, and
  returns the dictionary of a success or of a progress when they are not. \<open>feed\<close>
  raises \<open>ValueError\<close> when the animal is dead and returns \<open>None\<close> otherwise;
  \<open>exercise\<close> raises \<open>ValueError\<close> when the animal is dead or its \<open>energy_level\<close>
  is below 20, and returns \<open>None\<close> otherwise, for a \<open>duration\<close> that the
  interpreter can write into the description logged.
\<close>

theorem failures_returned_or_raised:
  "(if energy_level m < 30
    then fst (hunt_prey P now prey rate (m, g)) = Inr (Insufficient_energy No_energy_to_hunt)
    else \<exists>d. fst (hunt_prey P now prey rate (m, g)) = Inr d \<and>
               (status_of d = St_success \<or> status_of d = St_failed)) \<and>
   (if cmd \<in> set (learned_commands c)
    then fst (learn_command P now cmd trainer reps (c, g)) =
           Inr (Already_known (Already_learned cmd))
    else if \<not> quotient_fits_float (trainability_score c) 100 \<or> \<not> fits_float reps
    then fst (learn_command P now cmd trainer reps (c, g)) = Inl OverflowError
    else \<exists>d. fst (learn_command P now cmd trainer reps (c, g)) = Inr d \<and>
               (status_of d = St_success \<or> status_of d = St_progress)) \<and>
   fst (feed now food amount s) =
     (if is_alive s then Inr () else Inl (ValueError (Dead_cannot_feed (name s)))) \<and>
   (if \<not> is_alive s
    then fst (exercise now et dur s) = Inl (ValueError (Dead_cannot_exercise (name s)))
    else if energy_level s < 20
    then fst (exercise now et dur s) = Inl (ValueError (Too_tired_needs_rest (name s)))
    else digits_within_limit dur \<longrightarrow> fst (exercise now et dur s) = Inr ())"
proof -
  have h: "if energy_level m < 30
    then fst (hunt_prey P now prey rate (m, g)) = Inr (Insufficient_energy No_energy_to_hunt)
    else \<exists>d. fst (hunt_prey P now prey rate (m, g)) = Inr d \<and>
               (status_of d = St_success \<or> status_of d = St_failed)"
    by (simp add: hunt_prey_def Let_def split: prod.splits)
  have l: "if cmd \<in> set (learned_commands c)
    then fst (learn_command P now cmd trainer reps (c, g)) =
           Inr (Already_known (Already_learned cmd))
    else if \<not> quotient_fits_float (trainability_score c) 100 \<or> \<not> fits_float reps
    then fst (learn_command P now cmd trainer reps (c, g)) = Inl OverflowError
    else \<exists>d. fst (learn_command P now cmd trainer reps (c, g)) = Inr d \<and>
               (status_of d = St_success \<or> status_of d = St_progress)"
    by (simp add: learn_command_def Let_def split: prod.splits)
  have f: "fst (feed now food amount s) =
     (if is_alive s then Inr () else Inl (ValueError (Dead_cannot_feed (name s))))"
    by (simp add: feed_def Let_def)
  have e: "if \<not> is_alive s
    then fst (exercise now et dur s) = Inl (ValueError (Dead_cannot_exercise (name s)))
    else if energy_level s < 20
    then fst (exercise now et dur s) = Inl (ValueError (Too_tired_needs_rest (name s)))
    else digits_within_limit dur \<longrightarrow> fst (exercise now et dur s) = Inr ()"
    by (simp add: exercise_def Let_def)
  show ?thesis using h l f e by blast
qed

theorem failures_returned_or_raised_witness:
  "energy_level tired_rex < 30 \<and>
   fst (hunt_prey half_prng (t0 + 60000000) (ascii ''rabbit'') 0.6 (tired_rex, 12)) =
     Inr (Insufficient_energy No_energy_to_hunt) \<and>
   str_sit \<notin> set (learned_commands rex) \<and>
   quotient_fits_float (trainability_score rex) 100 \<and> \<not> fits_float (2 ^ 1024) \<and>
   fst (learn_command half_prng (t0 + 60000000) str_sit (ascii ''Ann'') (2 ^ 1024) (rex, 12)) =
     Inl OverflowError \<and>
   \<not> is_alive dead_rex \<and>
   fst (feed (t0 + 60000000) (ascii ''kibble'') 1 dead_rex) =
     Inl (ValueError (Dead_cannot_feed (name dead_rex))) \<and>
   fst (exercise (t0 + 60000000) (ascii ''walk'') 30 dead_rex) =
     Inl (ValueError (Dead_cannot_exercise (name dead_rex))) \<and>
   is_alive rex \<and> \<not> energy_level rex < 20 \<and> digits_within_limit 30 \<and>
   fst (feed (t0 + 60000000) (ascii ''kibble'') 1 rex) = Inr () \<and>
   fst (exercise (t0 + 60000000) (ascii ''walk'') 30 rex) = Inr ()"
proof -
  have e: "energy_level tired_rex < 30" by (simp add: tired_rex_def rex_def)
  have k: "str_sit \<notin> set (learned_commands rex)" by (simp add: rex_def)
  have q: "quotient_fits_float (trainability_score rex) 100"
    by (simp add: quotient_fits_float_def float_limit_def rex_def)
  have n: "\<not> fits_float (2 ^ 1024)" by (simp add: fits_float_def float_limit_def)
  have d: "\<not> is_alive dead_rex" by (simp add: dead_rex_def rex_def)
  have a: "is_alive rex" "\<not> energy_level rex < 20" by (simp_all add: rex_def)
  have "\<bar>30::int\<bar> < 10 ^ 2" by simp
  also have "(10::int) ^ 2 \<le> 10 ^ max_str_digits"
    by (rule power_increasing) (simp_all add: max_str_digits_def)
  finally have w: "digits_within_limit 30" unfolding digits_within_limit_def .
  show ?thesis
    using failures_returned_or_raised[where m = tired_rex and c = rex and s = dead_rex
        and P = half_prng and g = "12::nat" and now = "t0 + 60000000"
        and prey = "ascii ''rabbit''" and rate = "0.6" and cmd = str_sit
        and trainer = "ascii ''Ann''" and reps = "2 ^ 1024" and food = "ascii ''kibble''"
        and amount = 1 and et = "ascii ''walk''" and dur = 30]
      failures_returned_or_raised[where m = tired_rex and c = rex and s = rex
        and P = half_prng and g = "12::nat" and now = "t0 + 60000000"
        and prey = "ascii ''rabbit''" and rate = "0.6" and cmd = str_sit
        and trainer = "ascii ''Ann''" and reps = "2 ^ 1024" and food = "ascii ''kibble''"
        and amount = 1 and et = "ascii ''walk''" and dur = 30]
      e k q n d a w
    by simp
qed

lemma feed_all_bounds:
  "is_alive s
     \<Longrightarrow> \<forall>s' \<in> set (feed_all fs s).
           is_alive s' \<and> energy_level s' \<le> 100 \<and> happiness_level s' \<le> 100 \<and>
           min 0 (energy_level s) \<le> energy_level s' \<and>
           min 0 (happiness_level s) \<le> happiness_level s'"
proof (induction fs arbitrary: s)
  case Nil
  then show ?case by simp
next
  case (Cons f fs)
  obtain now food amount where f: "f = (now, food, amount)" by (cases f)
  let ?s1 = "snd (feed now food amount s)"
  have a: "is_alive ?s1"
    and u: "energy_level ?s1 \<le> 100" "happiness_level ?s1 \<le> 100"
    and l: "min 0 (energy_level s) \<le> energy_level ?s1"
           "min 0 (happiness_level s) \<le> happiness_level ?s1"
    using Cons.prems by (auto simp: feed_def log_activity_def Let_def min_def)
  have m: "min 0 (energy_level s) \<le> min 0 (energy_level ?s1)"
          "min 0 (happiness_level s) \<le> min 0 (happiness_level ?s1)"
    using l by simp_all
  have "\<forall>s' \<in> set (feed_all fs ?s1).
           is_alive s' \<and> energy_level s' \<le> 100 \<and> happiness_level s' \<le> 100 \<and>
           min 0 (energy_level s) \<le> energy_level s' \<and>
           min 0 (happiness_level s) \<le> happiness_level s'"
    using Cons.IH[OF a] m by (meson order_trans)
  then show ?case using a u l f by (simp add: Let_def)
qed

text \<open>
  C4. A constructed animal is alive with \<open>energy_level\<close> 100 and \<open>happiness_level\<close> 80.
  On a living animal, after each call of any sequence of calls of \<open>feed\<close> the animal is
  alive, neither level exceeds 100, and neither level is lower than it was before the
  sequence or than 0, whichever is less: \<open>feed\<close> never lowers a level. So from levels
  that are not negative, as those of a constructed animal, both levels lie in [0, 100]
  after each call.
\<close>

theorem feed_keeps_levels:
  "(fst (Animal_init now nm sp ag wt ow gd reg) = Inr a
      \<longrightarrow> is_alive a \<and> energy_level a = 100 \<and> happiness_level a = 80) \<and>
   (is_alive s
      \<longrightarrow> (\<forall>s' \<in> set (feed_all fs s).
             is_alive s' \<and> energy_level s' \<le> 100 \<and> happiness_level s' \<le> 100 \<and>
             min 0 (energy_level s) \<le> energy_level s' \<and>
             min 0 (happiness_level s) \<le> happiness_level s')) \<and>
   (is_alive s \<and> 0 \<le> energy_level s \<and> 0 \<le> happiness_level s
      \<longrightarrow> (\<forall>s' \<in> set (feed_all fs s). is_alive s' \<and> levels_in_range s'))"
  using Animal_init_levels[of now nm sp ag wt ow gd reg a] feed_all_bounds[of s fs]
  by (auto simp: levels_in_range_def)

theorem feed_keeps_levels_witness:
  "fst (Animal_init t0 (ascii ''Rex'') (ascii ''dog'') 3 20 (ascii ''Ann'') (ascii ''male'')
          empty_registry) = Inr rex_animal
   \<and> is_alive rex_animal \<and> energy_level rex_animal = 100 \<and> happiness_level rex_animal = 80
   \<and> 0 \<le> energy_level rex_animal \<and> 0 \<le> happiness_level rex_animal
   \<and> feed_all sample_feeds rex_animal \<noteq> []
   \<and> list_all (\<lambda>s'. is_alive s' \<and> levels_in_range s') (feed_all sample_feeds rex_animal)"
proof -
  have c: "fst (Animal_init t0 (ascii ''Rex'') (ascii ''dog'') 3 20 (ascii ''Ann'') (ascii ''male'')
               empty_registry) = Inr rex_animal"
    by (simp add: rex_animal_constructed)
  have n: "0 \<le> energy_level rex_animal \<and> 0 \<le> happiness_level rex_animal"
    by (simp add: rex_animal_def)
  have ne: "feed_all sample_feeds rex_animal \<noteq> []" by (simp add: sample_feeds_def Let_def)
  show ?thesis
    using feed_keeps_levels[of t0 "ascii ''Rex''" "ascii ''dog''" 3 20 "ascii ''Ann''"
        "ascii ''male''" empty_registry rex_animal rex_animal sample_feeds] c n ne
    by (simp add: list_all_iff)
qed


text \<open>
  C6. Two runs of \<open>hunt_prey\<close> on the same object, with the same arguments and the
  same generator in the same state, at any two times \<open>t1\<close> and \<open>t2\<close>: they return the
  same dictionary, leave the generator in the same state and the object with the same
  fields, the log of activities being the same up to the time of the record appended.
\<close>

theorem hunt_prey_deterministic:
  "fst (hunt_prey P t1 prey rate (s, g)) = fst (hunt_prey P t2 prey rate (s, g)) \<and>
   snd (snd (hunt_prey P t1 prey rate (s, g))) = snd (snd (hunt_prey P t2 prey rate (s, g))) \<and>
   (fst (snd (hunt_prey P t1 prey rate (s, g))))\<lparr>activity_log := []\<rparr> =
     (fst (snd (hunt_prey P t2 prey rate (s, g))))\<lparr>activity_log := []\<rparr> \<and>
   map forget_time (activity_log (fst (snd (hunt_prey P t1 prey rate (s, g))))) =
     map forget_time (activity_log (fst (snd (hunt_prey P t2 prey rate (s, g)))))"
  by (simp add: hunt_prey_def log_activity_def Let_def case_prod_beta forget_time_def
        AnimalRecord_def)

text \<open>
  C7. A call that finds \<open>energy_level\<close> below its threshold (20 for \<open>exercise\<close> and
  \<open>track_scent\<close>, 30 for \<open>hunt_prey\<close>, 25 for \<open>dig_hole\<close>, 15 for
  \<open>play_with_object\<close>) leaves the object, every field of it, and the generator as they
  were. \<open>exercise\<close> raises \<open>ValueError\<close>; the others return the dictionary with status
  \<open>'insufficient_energy'\<close>.
\<close>

theorem low_energy_call_changes_nothing:
  "(is_alive a \<and> energy_level a < 20 \<longrightarrow>
      exercise now et dur a = (Inl (ValueError (Too_tired_needs_rest (name a))), a)) \<and>
   (energy_level m < 30 \<longrightarrow>
      hunt_prey P now prey rate (m, g) = (Inr (Insufficient_energy No_energy_to_hunt), m, g)) \<and>
   (is_alive c \<and> energy_level c < 20 \<longrightarrow>
      track_scent P now scent hours diff (c, g) =
        (Inr (Insufficient_energy No_energy_to_track), c, g)) \<and>
   (is_alive c \<and> energy_level c < 25 \<longrightarrow>
      dig_hole now purpose depth c = (Inr (Insufficient_energy No_energy_to_dig), c)) \<and>
   (is_alive c \<and> energy_level c < 15 \<longrightarrow>
      play_with_object P now ob mins (c, g) =
        (Inr (Insufficient_energy Too_tired_to_play), c, g))"
  by (simp add: exercise_def hunt_prey_def track_scent_def dig_hole_def play_with_object_def)

theorem low_energy_call_changes_nothing_witness:
  "is_alive tired_rex \<and> energy_level tired_rex < 15 \<and>
   exercise (t0 + 60000000) (ascii ''walk'') 30 tired_rex =
     (Inl (ValueError (Too_tired_needs_rest (ascii ''Rex''))), tired_rex) \<and>
   hunt_prey half_prng (t0 + 60000000) (ascii ''rabbit'') 0.6 (tired_rex, 12) =
     (Inr (Insufficient_energy No_energy_to_hunt), tired_rex, 12) \<and>
   track_scent half_prng (t0 + 60000000) (ascii ''fox'') 4 str_hard (tired_rex, 12) =
     (Inr (Insufficient_energy No_energy_to_track), tired_rex, 12) \<and>
   dig_hole (t0 + 60000000) (ascii ''store'') 30 tired_rex =
     (Inr (Insufficient_energy No_energy_to_dig), tired_rex) \<and>
   play_with_object half_prng (t0 + 60000000) (ascii ''ball'') 15 (tired_rex, 12) =
     (Inr (Insufficient_energy Too_tired_to_play), tired_rex, 12)"
proof -
  have a: "is_alive tired_rex" and e: "energy_level tired_rex = 10" and n: "name tired_rex = ascii ''Rex''"
    by (simp_all add: tired_rex_def rex_def)
  show ?thesis
    using low_energy_call_changes_nothing[where a = tired_rex and m = tired_rex
        and c = tired_rex and P = half_prng and g = "12::nat" and now = "t0 + 60000000"
        and et = "ascii ''walk''" and dur = 30 and prey = "ascii ''rabbit''" and rate = "0.6"
        and scent = "ascii ''fox''" and hours = 4 and diff = str_hard and purpose = "ascii ''store''"
        and depth = 30 and ob = "ascii ''ball''" and mins = 15] a e n
    by simp
qed

text \<open>
  C8. No call removes or changes a record of \<open>activity_log\<close>: after each call of any
  sequence of calls of the methods that write the log (and these are all the methods
  of the three classes in which \<open>activity_log\<close> or \<open>_log_activity\<close> occurs), the log the
  object had at the start is a prefix of its log.
\<close>

theorem activity_log_append_only:
  "\<forall>(r, s', g') \<in> set (run P cs (s, g)). prefix (activity_log s) (activity_log s')"
proof (induction cs arbitrary: s g)
  case Nil
  then show ?case by simp
next
  case (Cons x cs)
  obtain now c where x: "x = (now, c)" by (cases x)
  obtain r s1 g1 where e: "exec P now c (s, g) = (r, s1, g1)"
    by (cases "exec P now c (s, g)")
  have p: "prefix (activity_log s) (activity_log s1)"
    using exec_log_prefix[of s P now c g] e by simp
  have "\<forall>(r, s', g') \<in> set (run P cs (s1, g1)). prefix (activity_log s) (activity_log s')"
    using Cons.IH[of s1 g1] p by (auto intro: prefix_order.trans)
  then show ?case using p x e by (simp add: Let_def)
qed

theorem activity_log_append_only_witness:
  "run half_prng (sample_calls @ sample_other_calls) (rex, 12) \<noteq> [] \<and>
   list_all (\<lambda>(r, s', g'). prefix (activity_log rex) (activity_log s'))
     (run half_prng (sample_calls @ sample_other_calls) (rex, 12))"
proof -
  have "run half_prng (sample_calls @ sample_other_calls) (rex, 12) \<noteq> []"
    by (simp add: sample_calls_def Let_def)
  then show ?thesis
    using activity_log_append_only[of half_prng "sample_calls @ sample_other_calls" rex 12]
    by (simp add: list_all_iff)
qed

text \<open>
  C9. On a dead animal \<open>sleep\<close> and \<open>age_up\<close> return \<open>None\<close> and leave the object,
  every field of it and its log, and the generator as they were.
\<close>

theorem dead_sleep_age_up_noop:
  assumes "\<not> is_alive s"
  shows "sleep now duration s = (Inr (), s) \<and>
         age_up life now years (s, g) = (Inr (), s, g)"
  using assms by (simp add: sleep_def age_up_def)

theorem dead_sleep_age_up_noop_witness:
  "\<not> is_alive dead_rex \<and>
   sleep (t0 + 60000000) 8 dead_rex = (Inr (), dead_rex) \<and>
   age_up (Canine_get_life_expectancy half_prng) (t0 + 60000000) 1 (dead_rex, 12) =
     (Inr (), dead_rex, 12)"
proof -
  have d: "\<not> is_alive dead_rex" by (simp add: dead_rex_def rex_def)
  show ?thesis
    using dead_sleep_age_up_noop[OF d, of "t0 + 60000000" 8
        "Canine_get_life_expectancy half_prng" 1 12] d
    by simp
qed

text \<open>
  C10. With \<open>energy_level\<close> at least 30, a \<open>hunt_prey\<close> whose draw \<open>u\<close> exceeds
  \<open>success_rate\<close> returns the dictionary of a failure with \<open>energy_lost\<close> 25, leaves
  \<open>energy_level\<close> exactly 25 lower, \<open>happiness_level\<close> at
  \<open>max(0, happiness_level - 10)\<close>, and appends exactly one record.
\<close>

theorem failed_hunt_still_costs:
  assumes "30 \<le> energy_level s"
    and "next_random P g = (u, g1)" and "\<not> u \<le> success_rate"
  shows "hunt_prey P now prey success_rate (s, g) =
           (Inr (Hunt_failed 25 prey),
            s\<lparr>energy_level := energy_level s - 25,
              happiness_level := max 0 (happiness_level s - 10),
              activity_log := activity_log s @ [AnimalRecord now Rt_hunting (D_escaped prey)]\<rparr>,
            g1) \<and>
         energy_level (fst (snd (hunt_prey P now prey success_rate (s, g)))) =
           energy_level s - 25 \<and>
         happiness_level (fst (snd (hunt_prey P now prey success_rate (s, g)))) =
           max 0 (happiness_level s - 10) \<and>
         length (activity_log (fst (snd (hunt_prey P now prey success_rate (s, g))))) =
           length (activity_log s) + 1"
  using assms by (simp add: hunt_prey_def log_activity_def Let_def)

theorem failed_hunt_still_costs_witness:
  "30 \<le> energy_level rex \<and> next_random half_prng 12 = (1 / 2, 13) \<and> \<not> (1 / 2 \<le> (0.3::real)) \<and>
   energy_level (fst (snd (hunt_prey half_prng (t0 + 60000000) (ascii ''rabbit'') 0.3 (rex, 12)))) = 75 \<and>
   happiness_level (fst (snd (hunt_prey half_prng (t0 + 60000000) (ascii ''rabbit'') 0.3 (rex, 12)))) = 70 \<and>
   length (activity_log
     (fst (snd (hunt_prey half_prng (t0 + 60000000) (ascii ''rabbit'') 0.3 (rex, 12))))) = 4"
proof -
  have e: "30 \<le> energy_level rex" and v: "energy_level rex = 100" "happiness_level rex = 80"
    "length (activity_log rex) = 3"
    by (simp_all add: rex_def)
  have d: "next_random half_prng 12 = (1 / 2, 13)" by (simp add: half_prng_def)
  have n: "\<not> (1 / 2 \<le> (0.3::real))" by simp
  show ?thesis
    using failed_hunt_still_costs[OF e d n, of "t0 + 60000000" "ascii ''rabbit''"] e d n v
    by simp
qed

end
